theory Spec2Isabelle
  imports Complex_Main
begin

section \<open>Numbers\<close>

text \<open>
  The program computes with two kinds of numbers: \<^verbatim>\<open>Decimal\<close> objects of the library
  decimal.js (prices, sizes, balances) and plain JavaScript numbers (signal strength,
  thresholds, the closes handed to the indicator code).  Both have, besides their finite
  values, the three special values \<^verbatim>\<open>Infinity\<close>, \<^verbatim>\<open>-Infinity\<close> and \<^verbatim>\<open>NaN\<close>, and neither
  raises on a division by zero.  Both are modelled by the one type \<open>decimal\<close>: an exact real
  number or one of the special values.  Rounding (to 20 significant digits in decimal.js, to
  a binary double for a number) is not modelled, and the negative zero is identified with
  zero, so that a non-zero value divided by zero takes the sign of the dividend.
\<close>

datatype decimal = Fin real | PInf | NInf | NaN

fun dneg :: "decimal \<Rightarrow> decimal" where
  "dneg (Fin a) = Fin (- a)"
| "dneg PInf = NInf"
| "dneg NInf = PInf"
| "dneg NaN = NaN"

fun dabs :: "decimal \<Rightarrow> decimal" where
  "dabs (Fin a) = Fin \<bar>a\<bar>"
| "dabs PInf = PInf"
| "dabs NInf = PInf"
| "dabs NaN = NaN"

fun dplus :: "decimal \<Rightarrow> decimal \<Rightarrow> decimal" where
  "dplus (Fin a) (Fin b) = Fin (a + b)"
| "dplus (Fin a) PInf = PInf"
| "dplus (Fin a) NInf = NInf"
| "dplus (Fin a) NaN = NaN"
| "dplus PInf (Fin b) = PInf"
| "dplus PInf PInf = PInf"
| "dplus PInf NInf = NaN"
| "dplus PInf NaN = NaN"
| "dplus NInf (Fin b) = NInf"
| "dplus NInf PInf = NaN"
| "dplus NInf NInf = NInf"
| "dplus NInf NaN = NaN"
| "dplus NaN b = NaN"

definition dminus :: "decimal \<Rightarrow> decimal \<Rightarrow> decimal" where
  "dminus a b = dplus a (dneg b)"

text \<open>The sign of a value that is not NaN, as \<open>-1\<close>, \<open>0\<close> or \<open>1\<close>.\<close>

fun dsgn :: "decimal \<Rightarrow> real" where
  "dsgn (Fin a) = sgn a"
| "dsgn PInf = 1"
| "dsgn NInf = - 1"
| "dsgn NaN = 0"

definition signed_inf :: "real \<Rightarrow> decimal" where
  "signed_inf s = (if s = 0 then NaN else if 0 < s then PInf else NInf)"

fun dmul :: "decimal \<Rightarrow> decimal \<Rightarrow> decimal" where
  "dmul (Fin a) (Fin b) = Fin (a * b)"
| "dmul NaN b = NaN"
| "dmul a NaN = NaN"
| "dmul a b = signed_inf (dsgn a * dsgn b)"

fun ddiv :: "decimal \<Rightarrow> decimal \<Rightarrow> decimal" where
  "ddiv (Fin a) (Fin b) = (if b = 0 then signed_inf (sgn a) else Fin (a / b))"
| "ddiv NaN b = NaN"
| "ddiv a NaN = NaN"
| "ddiv (Fin a) b = Fin 0"
| "ddiv a (Fin b) = signed_inf (dsgn a * (if b < 0 then - 1 else 1))"
| "ddiv a b = NaN"

fun dlt :: "decimal \<Rightarrow> decimal \<Rightarrow> bool" where
  "dlt (Fin a) (Fin b) = (a < b)"
| "dlt NaN b = False"
| "dlt a NaN = False"
| "dlt a NInf = False"
| "dlt PInf b = False"
| "dlt a b = True"

fun deq :: "decimal \<Rightarrow> decimal \<Rightarrow> bool" where
  "deq (Fin a) (Fin b) = (a = b)"
| "deq PInf PInf = True"
| "deq NInf NInf = True"
| "deq a b = False"

definition dgt :: "decimal \<Rightarrow> decimal \<Rightarrow> bool" where
  "dgt a b = dlt b a"

definition dlte :: "decimal \<Rightarrow> decimal \<Rightarrow> bool" where
  "dlte a b = (dlt a b \<or> deq a b)"

definition dgte :: "decimal \<Rightarrow> decimal \<Rightarrow> bool" where
  "dgte a b = (dlt b a \<or> deq a b)"

text \<open>
  \<^verbatim>\<open>Decimal.min(a, b)\<close> and \<^verbatim>\<open>Math.min(a, b)\<close>: NaN as soon as one argument is NaN, the
  smaller argument otherwise.
\<close>

definition dmin :: "decimal \<Rightarrow> decimal \<Rightarrow> decimal" where
  "dmin a b = (if b = NaN then NaN else if dgt a b then b else a)"

text \<open>\<^verbatim>\<open>Math.sqrt\<close>: NaN below zero, the real square root otherwise.\<close>

fun dsqrt :: "decimal \<Rightarrow> decimal" where
  "dsqrt (Fin a) = (if a < 0 then NaN else Fin (sqrt a))"
| "dsqrt PInf = PInf"
| "dsqrt NInf = NaN"
| "dsqrt NaN = NaN"

text \<open>A JavaScript number used as a condition: zero and NaN count as false.\<close>

definition truthy :: "decimal \<Rightarrow> bool" where
  "truthy a = (a \<noteq> Fin 0 \<and> a \<noteq> NaN)"

section \<open>Data model\<close>

text \<open>
  The interfaces of \<^verbatim>\<open>types/index.ts\<close>.  Field names are those of the source, with a prefix
  where two interfaces share a name.  The \<^verbatim>\<open>id\<close> strings of positions and trades are built
  from \<^verbatim>\<open>Math.random()\<close> and read nowhere; they are left out.  An optional field is an
  \<open>option\<close>.
\<close>

datatype signal_type = BUY | SELL | HOLD

datatype trade_side = TradeBUY | TradeSELL

datatype trade_status = TradePENDING | SUCCESS | FAILED

datatype position_side = LONG | SHORT

datatype position_status = OPEN | CLOSED | PENDING

datatype error = DecimalError | TypeError | NoHistoricalData

record PriceData =
  timestamp :: int
  open_price :: decimal
  high :: decimal
  low :: decimal
  close :: decimal
  volume :: decimal
  source :: string

record Indicators =
  sma :: decimal
  upperBand :: decimal
  lowerBand :: decimal
  stdDev :: decimal
  rsi :: "decimal option"
  ema :: "decimal option"

record SignalIndicators =
  signal_sma :: decimal
  signal_upperBand :: decimal
  signal_lowerBand :: decimal
  signal_stdDev :: decimal
  zScore :: decimal

record TradingSignal =
  signal_type :: signal_type
  strength :: decimal
  price :: decimal
  signal_timestamp :: int
  indicators :: SignalIndicators
  reason :: string

record Position =
  entryPrice :: decimal
  entryTime :: int
  psize :: decimal
  side :: position_side
  stopLoss :: "decimal option"
  takeProfit :: "decimal option"
  currentPrice :: "decimal option"
  pnl :: "decimal option"
  pnlPercent :: "decimal option"
  status :: position_status

record Trade =
  trade_timestamp :: int
  trade_side :: trade_side
  trade_price :: decimal
  trade_size :: decimal
  fee :: decimal
  trade_status :: trade_status

text \<open>
  The period of the moving average is a natural number and the maximal number of open
  positions an integer; the other numeric parameters of the strategy are finite numbers.
\<close>

record StrategyParams =
  maPeriod :: nat
  stdDevMultiplier :: real
  entryThreshold :: real
  exitThreshold :: real
  stopLossPercent :: real
  takeProfitPercent :: real
  minVolume :: decimal

record RiskParams =
  maxPositionSize :: decimal
  maxOpenPositions :: int
  riskPerTrade :: decimal
  maxDailyLoss :: decimal
  maxDrawdown :: decimal

text \<open>
  The module \<^verbatim>\<open>config\<close> is not part of the sources at hand; the fields of
  \<^verbatim>\<open>TradingConfig\<close> that the three components read are a parameter.
\<close>

record TradingConfig =
  cfg_maxPositionSize :: real
  cfg_riskPerTrade :: real
  cfg_maPeriod :: nat
  cfg_stdDevMultiplier :: real
  cfg_minVolumeUsd :: real

text \<open>
  The indicator functions \<^verbatim>\<open>RSI.calculate\<close> and \<^verbatim>\<open>EMA.calculate\<close> of the package
  technicalindicators are a parameter as well: given a period and the values they return
  a list of indicator values, or \<open>None\<close> when the call throws.
\<close>

record indicator_lib =
  RSI_calculate :: "nat \<Rightarrow> decimal list \<Rightarrow> decimal list option"
  EMA_calculate :: "nat \<Rightarrow> decimal list \<Rightarrow> decimal list option"

section \<open>MeanReversionStrategy\<close>

definition MeanReversionStrategy_new :: "TradingConfig \<Rightarrow> StrategyParams" where
  "MeanReversionStrategy_new cfg =
     \<lparr> maPeriod = cfg_maPeriod cfg,
       stdDevMultiplier = cfg_stdDevMultiplier cfg,
       entryThreshold = 0.5,
       exitThreshold = 0.1,
       stopLossPercent = 0.05,
       takeProfitPercent = 0.1,
       minVolume = Fin (cfg_minVolumeUsd cfg) \<rparr>"

text \<open>\<^verbatim>\<open>xs.slice(-n)\<close> for \<open>n \<ge> 0\<close>: the last \<open>n\<close> elements, and the whole array for \<open>n = 0\<close>.\<close>

definition slice_last :: "nat \<Rightarrow> 'a list \<Rightarrow> 'a list" where
  "slice_last n xs = (if n = 0 then xs else drop (length xs - n) xs)"

text \<open>\<^verbatim>\<open>values.reduce((a, b) => a + b, 0)\<close>\<close>

definition sum_values :: "decimal list \<Rightarrow> decimal" where
  "sum_values vs = foldl dplus (Fin 0) vs"

text \<open>
  Modelled from the spec: \<^verbatim>\<open>SMA.calculate\<close> of the package technicalindicators, which is not
  part of the sources.  The specification has the simple moving average over the trailing
  \<open>maPeriod\<close> closes; the function returns, for a period of at least one, the mean of every
  run of \<open>period\<close> consecutive values, in order, and no value when there are fewer than
  \<open>period\<close> values.  The strategy is configured with a period of at least two; the model
  returns no value for the period zero.
\<close>

definition SMA_calculate :: "nat \<Rightarrow> decimal list \<Rightarrow> decimal list" where
  "SMA_calculate period vs =
     (if period = 0 \<or> length vs < period then []
      else map (\<lambda>i. ddiv (sum_values (take period (drop i vs))) (Fin (real period)))
             [0 ..< Suc (length vs - period)])"

definition calculateIndicators ::
  "StrategyParams \<Rightarrow> indicator_lib \<Rightarrow> decimal list \<Rightarrow> Indicators option" where
  "calculateIndicators P lib closes =
     (let smaValues = SMA_calculate (maPeriod P) closes in
      if smaValues = [] then None
      else
        let sma = last smaValues;
            recentCloses = slice_last (maPeriod P) closes;
            mean = ddiv (sum_values recentCloses) (Fin (real (length recentCloses)));
            variance = ddiv (foldl (\<lambda>sum val. dplus sum (dmul (dminus val mean) (dminus val mean)))
                                (Fin 0) recentCloses)
                            (Fin (real (length recentCloses)));
            stdDev = dsqrt variance;
            upperBand = dplus sma (dmul stdDev (Fin (stdDevMultiplier P)));
            lowerBand = dminus sma (dmul stdDev (Fin (stdDevMultiplier P)))
        in
          case (if 14 \<le> length closes then RSI_calculate lib 14 closes else Some []) of
            None \<Rightarrow> None
          | Some rsiValues \<Rightarrow>
             (case (if 20 \<le> length closes then EMA_calculate lib 20 closes else Some []) of
                None \<Rightarrow> None
              | Some emaValues \<Rightarrow>
                  Some \<lparr> sma = sma, upperBand = upperBand, lowerBand = lowerBand,
                         stdDev = stdDev,
                         rsi = (if rsiValues = [] then None else Some (last rsiValues)),
                         ema = (if emaValues = [] then None else Some (last emaValues)) \<rparr>))"

text \<open>
  The chain of conditions under ``Mean Reversion Logic'' in \<^verbatim>\<open>generateSignal\<close>: the signal
  type, the strength and the reason it leaves in the three local variables.  The number that
  the source formats into the reason is left out of the string.
\<close>

definition meanReversionLogic ::
  "StrategyParams \<Rightarrow> decimal \<Rightarrow> decimal option \<Rightarrow> signal_type \<times> decimal \<times> string" where
  "meanReversionLogic P z rsi_opt =
     (let zScoreAbs = dabs z in
      if dlt z (Fin (- stdDevMultiplier P)) then
        (let strength0 = dmin (ddiv zScoreAbs (Fin 3)) (Fin 1);
             reason0 = ''Price std devs below mean - strong oversold''
         in case rsi_opt of
              Some r \<Rightarrow>
                if truthy r \<and> dlt r (Fin 30)
                then (BUY, dmin (dplus strength0 (Fin 0.2)) (Fin 1), reason0 @ '', RSI oversold'')
                else (BUY, strength0, reason0)
            | None \<Rightarrow> (BUY, strength0, reason0))
      else if dgt z (Fin (stdDevMultiplier P)) then
        (let strength0 = dmin (ddiv zScoreAbs (Fin 3)) (Fin 1);
             reason0 = ''Price std devs above mean - strong overbought''
         in case rsi_opt of
              Some r \<Rightarrow>
                if truthy r \<and> dgt r (Fin 70)
                then (SELL, dmin (dplus strength0 (Fin 0.2)) (Fin 1), reason0 @ '', RSI overbought'')
                else (SELL, strength0, reason0)
            | None \<Rightarrow> (SELL, strength0, reason0))
      else if dlt z (Fin (- entryThreshold P)) \<and> dgt z (Fin (- stdDevMultiplier P)) then
        (BUY, dmin (ddiv zScoreAbs (Fin 2)) (Fin 0.7),
         ''Price std devs below mean - moderate oversold'')
      else if dgt z (Fin (entryThreshold P)) \<and> dlt z (Fin (stdDevMultiplier P)) then
        (SELL, dmin (ddiv zScoreAbs (Fin 2)) (Fin 0.7),
         ''Price std devs above mean - moderate overbought'')
      else if dlt zScoreAbs (Fin (exitThreshold P)) then
        (HOLD, Fin 0.1, ''Price near mean - neutral zone'')
      else (HOLD, Fin 0, []))"

text \<open>The block ``Additional filters for false signals'': the strength and reason after it.\<close>

definition additionalFilters ::
  "signal_type \<Rightarrow> decimal \<Rightarrow> string \<Rightarrow> decimal \<Rightarrow> Indicators \<Rightarrow> decimal \<times> string" where
  "additionalFilters signalType strength0 reason0 curPrice ind =
     (if signalType \<noteq> HOLD then
        (let (strength1, reason1) =
               (if signalType = BUY \<and> dlt curPrice (lowerBand ind)
                then (dmin (dplus strength0 (Fin 0.1)) (Fin 1),
                      reason0 @ '', price below lower Bollinger Band'')
                else if signalType = SELL \<and> dgt curPrice (upperBand ind)
                then (dmin (dplus strength0 (Fin 0.1)) (Fin 1),
                      reason0 @ '', price above upper Bollinger Band'')
                else (strength0, reason0))
         in case ema ind of
              Some e \<Rightarrow>
                (let bullish = dgt curPrice e in
                 if (signalType = BUY \<and> \<not> bullish) \<or> (signalType = SELL \<and> bullish)
                 then (dmin (dplus strength1 (Fin 0.05)) (Fin 1), reason1)
                 else (strength1, reason1))
            | None \<Rightarrow> (strength1, reason1))
      else (strength0, reason0))"

text \<open>\<open>now\<close> is the value that \<^verbatim>\<open>Date.now()\<close> returns.\<close>

definition generateSignal ::
  "StrategyParams \<Rightarrow> int \<Rightarrow> decimal \<Rightarrow> decimal \<Rightarrow> Indicators \<Rightarrow> decimal \<Rightarrow> TradingSignal option" where
  "generateSignal P now curPrice z ind vol =
     (if dlt vol (minVolume P) then None
      else
        let (signalType, strength0, reason0) = meanReversionLogic P z (rsi ind);
            (strength1, reason1) = additionalFilters signalType strength0 reason0 curPrice ind
        in if dlt strength1 (Fin 0.3) then None
           else Some \<lparr> signal_type = signalType, strength = strength1, price = curPrice,
                       signal_timestamp = now,
                       indicators = \<lparr> signal_sma = sma ind, signal_upperBand = upperBand ind,
                                      signal_lowerBand = lowerBand ind,
                                      signal_stdDev = stdDev ind, zScore = z \<rparr>,
                       reason = reason1 \<rparr>)"

text \<open>
  \<^verbatim>\<open>analyze\<close> throws only where \<^verbatim>\<open>new Decimal(undefined)\<close> does: when the history is empty
  (and the period is zero, so that the length check lets it through).
\<close>

definition analyze ::
  "StrategyParams \<Rightarrow> indicator_lib \<Rightarrow> int \<Rightarrow> PriceData list \<Rightarrow> error + TradingSignal option" where
  "analyze P lib now priceHistory =
     (if length priceHistory < maPeriod P then Inr None
      else
        let closes = map close priceHistory in
        if closes = [] then Inl DecimalError
        else
          let curPrice = last closes in
          case calculateIndicators P lib closes of
            None \<Rightarrow> Inr None
          | Some ind \<Rightarrow>
              (let z = ddiv (dminus curPrice (sma ind)) (stdDev ind)
               in Inr (generateSignal P now curPrice z ind (volume (last priceHistory)))))"

definition calculatePositionSize ::
  "TradingConfig \<Rightarrow> StrategyParams \<Rightarrow> TradingSignal \<Rightarrow> decimal \<Rightarrow> decimal \<Rightarrow> decimal" where
  "calculatePositionSize cfg P signal availableBalance curPrice =
     (let maxPosition = Fin (cfg_maxPositionSize cfg);
          riskPerTrade = Fin (cfg_riskPerTrade cfg);
          positionSize0 = dmul maxPosition (strength signal);
          riskAmount = dmul availableBalance riskPerTrade;
          stopLossDistance = dmul curPrice (Fin (stopLossPercent P));
          riskBasedSize = ddiv riskAmount stopLossDistance;
          positionSize1 = dmin positionSize0 riskBasedSize;
          maxAffordable = dmul (ddiv availableBalance curPrice) (Fin 0.95)
      in dmin positionSize1 maxAffordable)"

section \<open>RiskManager\<close>

record RiskManager =
  params :: RiskParams
  dailyLoss :: decimal
  dailyLossResetTime :: int
  rm_maxDrawdown :: decimal
  rm_peakBalance :: decimal

record Validation =
  allowed :: bool
  validation_reason :: "string option"
  adjustedSize :: "decimal option"

record CloseDecision =
  shouldClose :: bool
  close_reason :: "string option"

definition RiskManager_new :: "TradingConfig \<Rightarrow> RiskManager" where
  "RiskManager_new cfg =
     \<lparr> params = \<lparr> maxPositionSize = Fin (cfg_maxPositionSize cfg),
                  maxOpenPositions = 3,
                  riskPerTrade = Fin (cfg_riskPerTrade cfg),
                  maxDailyLoss = Fin (cfg_maxPositionSize cfg * 0.1),
                  maxDrawdown = Fin 0.2 \<rparr>,
       dailyLoss = Fin 0,
       dailyLossResetTime = 0,
       rm_maxDrawdown = Fin 0,
       rm_peakBalance = Fin 0 \<rparr>"

definition calculateTotalExposure :: "Position list \<Rightarrow> decimal" where
  "calculateTotalExposure ps =
     foldl (\<lambda>total pos.
              if status pos = OPEN then
                (let currentValue = (case currentPrice pos of
                                       Some cp \<Rightarrow> dmul (psize pos) cp
                                     | None \<Rightarrow> dmul (psize pos) (entryPrice pos))
                 in dplus total currentValue)
              else total)
           (Fin 0) ps"

definition isDailyLossLimitExceeded :: "RiskManager \<Rightarrow> bool" where
  "isDailyLossLimitExceeded rm = dgt (dailyLoss rm) (maxDailyLoss (params rm))"

text \<open>The check stores the balance as the peak when no peak has been recorded yet.\<close>

definition isDrawdownLimitExceeded :: "RiskManager \<Rightarrow> decimal \<Rightarrow> bool \<times> RiskManager" where
  "isDrawdownLimitExceeded rm currentBalance =
     (if deq (rm_peakBalance rm) (Fin 0) then (False, rm\<lparr> rm_peakBalance := currentBalance \<rparr>)
      else
        let currentDrawdown = ddiv (dminus (rm_peakBalance rm) currentBalance) (rm_peakBalance rm)
        in (dgt currentDrawdown (maxDrawdown (params rm)), rm))"

text \<open>
  The result of \<^verbatim>\<open>validateTrade\<close> together with the risk manager after the call.  The
  numbers that the source formats into the reasons are left out of the strings.
\<close>

definition validateTrade ::
  "RiskManager \<Rightarrow> TradingSignal \<Rightarrow> decimal \<Rightarrow> decimal \<Rightarrow> Position list \<Rightarrow> Validation \<times> RiskManager"
  where
  "validateTrade rm signal proposedSize currentBalance openPositions =
     (if maxOpenPositions (params rm) \<le> int (length openPositions) then
        (\<lparr> allowed = False, validation_reason = Some ''Maximum open positions reached'',
           adjustedSize = None \<rparr>, rm)
      else if isDailyLossLimitExceeded rm then
        (\<lparr> allowed = False, validation_reason = Some ''Daily loss limit exceeded'',
           adjustedSize = None \<rparr>, rm)
      else
        let (exceeded, rm1) = isDrawdownLimitExceeded rm currentBalance in
        if exceeded then
          (\<lparr> allowed = False, validation_reason = Some ''Maximum drawdown exceeded'',
             adjustedSize = None \<rparr>, rm1)
        else
          let currentExposure = calculateTotalExposure openPositions;
              newExposure = dplus currentExposure (dmul proposedSize (price signal));
              maxExposure = dmul currentBalance (Fin 0.5)
          in
          if dgt newExposure maxExposure then
            (let availableExposure = dminus maxExposure currentExposure in
             if dlte availableExposure (Fin 0) then
               (\<lparr> allowed = False, validation_reason = Some ''Maximum exposure limit reached'',
                  adjustedSize = None \<rparr>, rm1)
             else
               (\<lparr> allowed = True,
                  validation_reason = Some ''Position size adjusted due to exposure limits'',
                  adjustedSize = Some (ddiv availableExposure (price signal)) \<rparr>, rm1))
          else
            let riskAmount = dmul currentBalance (riskPerTrade (params rm1));
                stopLossDistance = dmul (price signal) (Fin 0.05);
                riskBasedSize = ddiv riskAmount stopLossDistance;
                finalSize0 = dmin proposedSize riskBasedSize;
                finalSize = dmin finalSize0 (maxPositionSize (params rm1));
                minPositionValue = Fin 10;
                positionValue = dmul finalSize (price signal)
            in
            if dlt positionValue minPositionValue then
              (\<lparr> allowed = False, validation_reason = Some ''Position value below minimum'',
                 adjustedSize = None \<rparr>, rm1)
            else if dlt (strength signal) (Fin 0.4) then
              (\<lparr> allowed = False, validation_reason = Some ''Signal strength too weak (minimum: 0.4)'',
                 adjustedSize = None \<rparr>, rm1)
            else if \<not> deq finalSize proposedSize then
              (\<lparr> allowed = True,
                 validation_reason = Some ''Position size adjusted for risk management'',
                 adjustedSize = Some finalSize \<rparr>, rm1)
            else
              (\<lparr> allowed = True, validation_reason = None, adjustedSize = None \<rparr>, rm1))"

definition calculateStopLoss :: "decimal \<Rightarrow> position_side \<Rightarrow> decimal option \<Rightarrow> decimal" where
  "calculateStopLoss entry sd atr =
     (let stopDistance = (case atr of Some a \<Rightarrow> dmul a (Fin 2) | None \<Rightarrow> dmul entry (Fin 0.05))
      in if sd = LONG then dminus entry stopDistance else dplus entry stopDistance)"

definition calculateTakeProfit :: "decimal \<Rightarrow> position_side \<Rightarrow> real \<Rightarrow> decimal" where
  "calculateTakeProfit entry sd riskRewardRatio =
     (let profitTarget = dmul entry (Fin (0.05 * riskRewardRatio))
      in if sd = LONG then dplus entry profitTarget else dminus entry profitTarget)"

definition shouldClosePosition :: "int \<Rightarrow> Position \<Rightarrow> CloseDecision" where
  "shouldClosePosition now position =
     (case currentPrice position of
        None \<Rightarrow> \<lparr> shouldClose = False, close_reason = None \<rparr>
      | Some cp \<Rightarrow>
          if (case stopLoss position of
                Some sl \<Rightarrow> (side position = LONG \<and> dlte cp sl) \<or> (side position = SHORT \<and> dgte cp sl)
              | None \<Rightarrow> False)
          then \<lparr> shouldClose = True, close_reason = Some ''Stop loss triggered'' \<rparr>
          else if (case takeProfit position of
                Some tp \<Rightarrow> (side position = LONG \<and> dgte cp tp) \<or> (side position = SHORT \<and> dlte cp tp)
              | None \<Rightarrow> False)
          then \<lparr> shouldClose = True, close_reason = Some ''Take profit reached'' \<rparr>
          else if 24 * 60 * 60 * 1000 < now - entryTime position
          then \<lparr> shouldClose = True, close_reason = Some ''Position age exceeded 24 hours'' \<rparr>
          else if (case pnlPercent position of Some pp \<Rightarrow> dlt pp (Fin (- 10)) | None \<Rightarrow> False)
          then \<lparr> shouldClose = True, close_reason = Some ''Emergency stop - loss exceeded 10%'' \<rparr>
          else \<lparr> shouldClose = False, close_reason = None \<rparr>)"

section \<open>Backtester\<close>

text \<open>
  The state of a \<^verbatim>\<open>Backtester\<close> object.  A position object is identified by its index in
  \<^verbatim>\<open>this.positions\<close>: positions are only ever appended, and the arrays that the source
  obtains with \<^verbatim>\<open>filter\<close> hold the same objects, so that closing one of them is an update
  of the ledger at its index; every index handed to \<^verbatim>\<open>executeSell\<close> comes from such a
  filter and lies within the ledger.  \<open>tick\<close> counts the readings of the wall clock; the reading
  number \<open>n\<close> of \<^verbatim>\<open>Date.now()\<close> is \<open>wall n\<close>, for a function \<open>wall\<close> that is a parameter
  of the run.
\<close>

record Backtester =
  strategy :: StrategyParams
  riskManager :: RiskManager
  balance :: decimal
  initialBalance :: decimal
  positions :: "Position list"
  trades :: "Trade list"
  peakBalance :: decimal
  bt_maxDrawdown :: decimal
  tick :: nat

record BacktestResult =
  result_initialBalance :: decimal
  finalBalance :: decimal
  totalReturn :: decimal
  totalReturnPercent :: decimal
  totalTrades :: nat
  winningTrades :: nat
  losingTrades :: nat
  winRate :: decimal
  averageWin :: decimal
  averageLoss :: decimal
  profitFactor :: decimal
  sharpeRatio :: decimal
  result_maxDrawdown :: decimal
  result_trades :: "Trade list"

definition Backtester_new :: "TradingConfig \<Rightarrow> real \<Rightarrow> Backtester" where
  "Backtester_new cfg initial =
     \<lparr> strategy = MeanReversionStrategy_new cfg,
       riskManager = RiskManager_new cfg,
       balance = Fin initial,
       initialBalance = Fin initial,
       positions = [],
       trades = [],
       peakBalance = Fin initial,
       bt_maxDrawdown = Fin 0,
       tick = 0 \<rparr>"

text \<open>\<^verbatim>\<open>this.positions.filter(p => p.status === 'OPEN')\<close>, as indices and as objects.\<close>

definition openIndices :: "Position list \<Rightarrow> nat list" where
  "openIndices ps = filter (\<lambda>i. status (ps ! i) = OPEN) [0 ..< length ps]"

definition openPositionsOf :: "Position list \<Rightarrow> Position list" where
  "openPositionsOf ps = map (\<lambda>i. ps ! i) (openIndices ps)"

definition executeBuy :: "decimal \<Rightarrow> decimal \<Rightarrow> int \<Rightarrow> Backtester \<Rightarrow> Backtester" where
  "executeBuy sz pr ts s =
     (let cost = dmul sz pr;
          fee0 = dmul cost (Fin 0.0025);
          totalCost = dplus cost fee0
      in if dlt (balance s) totalCost then s
         else
           let trade = \<lparr> trade_timestamp = ts, trade_side = TradeBUY, trade_price = pr,
                         trade_size = sz, fee = fee0, trade_status = SUCCESS \<rparr>;
               position = \<lparr> entryPrice = pr, entryTime = ts, psize = sz, side = LONG,
                            stopLoss = Some (calculateStopLoss pr LONG None),
                            takeProfit = Some (calculateTakeProfit pr LONG 2),
                            currentPrice = None, pnl = None, pnlPercent = None,
                            status = OPEN \<rparr>
           in s\<lparr> balance := dminus (balance s) totalCost,
                 trades := trades s @ [trade],
                 positions := positions s @ [position] \<rparr>)"

definition executeSell :: "nat \<Rightarrow> decimal \<Rightarrow> int \<Rightarrow> Backtester \<Rightarrow> Backtester" where
  "executeSell i pr ts s =
     (let position = positions s ! i in
      if status position \<noteq> OPEN then s
      else
        let proceeds = dmul (psize position) pr;
            fee0 = dmul proceeds (Fin 0.0025);
            netProceeds = dminus proceeds fee0;
            trade = \<lparr> trade_timestamp = ts, trade_side = TradeSELL, trade_price = pr,
                      trade_size = psize position, fee = fee0, trade_status = SUCCESS \<rparr>;
            entryValue = dmul (entryPrice position) (psize position);
            exitValue = dmul pr (psize position);
            pnl0 = dminus exitValue entryValue
        in s\<lparr> balance := dplus (balance s) netProceeds,
              trades := trades s @ [trade],
              positions := (positions s)
                [i := position\<lparr> status := CLOSED, currentPrice := Some pr, pnl := Some pnl0,
                               pnlPercent := Some (dmul (ddiv pnl0 entryValue) (Fin 100)) \<rparr>] \<rparr>)"

definition updatePositionValues :: "decimal \<Rightarrow> Backtester \<Rightarrow> Backtester" where
  "updatePositionValues cp s =
     s\<lparr> positions :=
          map (\<lambda>position.
                 if status position = OPEN then
                   (let entryValue = dmul (entryPrice position) (psize position);
                        currentValue = dmul cp (psize position);
                        pnl0 = dminus currentValue entryValue
                    in position\<lparr> currentPrice := Some cp, pnl := Some pnl0,
                                  pnlPercent := Some (dmul (ddiv pnl0 entryValue) (Fin 100)) \<rparr>)
                 else position)
              (positions s) \<rparr>"

definition checkPositionExits :: "(nat \<Rightarrow> int) \<Rightarrow> PriceData \<Rightarrow> Backtester \<Rightarrow> Backtester" where
  "checkPositionExits wall currentData s =
     foldl (\<lambda>s1 i.
              let now = wall (tick s1);
                  s2 = s1\<lparr> tick := Suc (tick s1) \<rparr>
              in if shouldClose (shouldClosePosition now (positions s2 ! i))
                 then executeSell i (close currentData) (timestamp currentData) s2
                 else s2)
           s (openIndices (positions s))"

definition closeAllPositions :: "(nat \<Rightarrow> int) \<Rightarrow> decimal \<Rightarrow> Backtester \<Rightarrow> Backtester" where
  "closeAllPositions wall finalPrice s =
     foldl (\<lambda>s1 i. executeSell i finalPrice (wall (tick s1)) (s1\<lparr> tick := Suc (tick s1) \<rparr>))
           s (openIndices (positions s))"

definition processSignal ::
  "TradingConfig \<Rightarrow> TradingSignal \<Rightarrow> PriceData \<Rightarrow> Backtester \<Rightarrow> Backtester" where
  "processSignal cfg signal currentData s =
     (let openIdx = openIndices (positions s);
          openPositions = openPositionsOf (positions s);
          positionSize = calculatePositionSize cfg (strategy s) signal (balance s) (price signal);
          (validation, rm1) = validateTrade (riskManager s) signal positionSize (balance s)
                                openPositions;
          s1 = s\<lparr> riskManager := rm1 \<rparr>
      in if \<not> allowed validation then s1
         else
           let finalSize = (case adjustedSize validation of Some a \<Rightarrow> a | None \<Rightarrow> positionSize);
               cost = dmul finalSize (price signal)
           in if signal_type signal = BUY \<and> dgte (balance s1) cost
              then executeBuy finalSize (price signal) (timestamp currentData) s1
              else if signal_type signal = SELL \<and> openIdx \<noteq> []
              then executeSell (hd openIdx) (price signal) (timestamp currentData) s1
              else s1)"

definition updateBalanceTracking :: "Backtester \<Rightarrow> Backtester" where
  "updateBalanceTracking s =
     (let positionValue =
            foldl (\<lambda>total position.
                     let currentValue = (case currentPrice position of
                                           Some cp \<Rightarrow> dmul (psize position) cp
                                         | None \<Rightarrow> dmul (psize position) (entryPrice position))
                     in dplus total currentValue)
                  (Fin 0) (filter (\<lambda>p. status p = OPEN) (positions s));
          totalValue = dplus (balance s) positionValue;
          s1 = (if dgt totalValue (peakBalance s) then s\<lparr> peakBalance := totalValue \<rparr> else s);
          drawdown = ddiv (dminus (peakBalance s1) totalValue) (peakBalance s1)
      in if dgt drawdown (bt_maxDrawdown s1) then s1\<lparr> bt_maxDrawdown := drawdown \<rparr> else s1)"

text \<open>
  \<^verbatim>\<open>calculateSharpeRatio\<close>.  A position that has a \<^verbatim>\<open>pnl\<close> and no \<^verbatim>\<open>pnlPercent\<close> makes
  \<^verbatim>\<open>pct.div(100)\<close> a call on \<^verbatim>\<open>undefined\<close>, a TypeError.
\<close>

definition calculateSharpeRatio :: "Position list \<Rightarrow> error + decimal" where
  "calculateSharpeRatio ps =
     (if length ps < 2 then Inr (Fin 0)
      else
        let withPnl = filter (\<lambda>p. pnl p \<noteq> None) ps in
        if list_ex (\<lambda>p. pnlPercent p = None) withPnl then Inl TypeError
        else
          let returns = map (\<lambda>p. case pnlPercent p of Some pct \<Rightarrow> ddiv pct (Fin 100) | None \<Rightarrow> NaN)
                            withPnl
          in if returns = [] then Inr (Fin 0)
             else
               let avgReturn = ddiv (foldl (\<lambda>sum ret. dplus sum ret) (Fin 0) returns)
                                    (Fin (real (length returns)));
                   variance = ddiv (foldl (\<lambda>sum ret.
                                             let diff = dminus ret avgReturn
                                             in dplus sum (dmul diff diff))
                                          (Fin 0) returns)
                                   (Fin (real (length returns)));
                   stdDev = dsqrt variance
               in Inr (if dgt stdDev (Fin 0) then ddiv avgReturn stdDev else Fin 0))"

text \<open>
  \<^verbatim>\<open>calculateResults\<close>, without the two dates that it copies from the configuration of the
  run.  The sums run over positions that the filters have shown to have a \<^verbatim>\<open>pnl\<close>.
\<close>

definition calculateResults :: "Backtester \<Rightarrow> error + BacktestResult" where
  "calculateResults s =
     (let closedPositions = filter (\<lambda>p. status p = CLOSED) (positions s);
          winning = filter (\<lambda>p. case pnl p of Some v \<Rightarrow> dgt v (Fin 0) | None \<Rightarrow> False)
                           closedPositions;
          losing = filter (\<lambda>p. case pnl p of Some v \<Rightarrow> dlt v (Fin 0) | None \<Rightarrow> False)
                          closedPositions;
          totalReturn0 = dminus (balance s) (initialBalance s);
          totalReturnPercent0 = dmul (ddiv totalReturn0 (initialBalance s)) (Fin 100);
          averageWin0 =
            (if winning \<noteq> [] then
               ddiv (foldl (\<lambda>sum p. case pnl p of Some v \<Rightarrow> dplus sum v | None \<Rightarrow> sum)
                           (Fin 0) winning)
                    (Fin (real (length winning)))
             else Fin 0);
          averageLoss0 =
            (if losing \<noteq> [] then
               ddiv (foldl (\<lambda>sum p. case pnl p of Some v \<Rightarrow> dplus sum (dabs v) | None \<Rightarrow> sum)
                           (Fin 0) losing)
                    (Fin (real (length losing)))
             else Fin 0);
          profitFactor0 = (if dgt averageLoss0 (Fin 0) then ddiv averageWin0 averageLoss0 else Fin 0);
          winRate0 =
            (if closedPositions \<noteq> [] then
               dmul (ddiv (Fin (real (length winning))) (Fin (real (length closedPositions))))
                    (Fin 100)
             else Fin 0)
      in case calculateSharpeRatio closedPositions of
           Inl e \<Rightarrow> Inl e
         | Inr sharpe \<Rightarrow>
             Inr \<lparr> result_initialBalance = initialBalance s,
                   finalBalance = balance s,
                   totalReturn = totalReturn0,
                   totalReturnPercent = totalReturnPercent0,
                   totalTrades = length closedPositions,
                   winningTrades = length winning,
                   losingTrades = length losing,
                   winRate = winRate0,
                   averageWin = averageWin0,
                   averageLoss = averageLoss0,
                   profitFactor = profitFactor0,
                   sharpeRatio = sharpe,
                   result_maxDrawdown = bt_maxDrawdown s,
                   result_trades = trades s \<rparr>)"

text \<open>
  One turn of the loop of \<^verbatim>\<open>runBacktest\<close>: the price window and the backtester after the
  bar \<open>currentData\<close>.  The progress log is left out.  A reading of the clock is set aside
  for \<^verbatim>\<open>analyze\<close>, whether \<^verbatim>\<open>generateSignal\<close> gets to read it or not.
\<close>

definition processBar ::
  "TradingConfig \<Rightarrow> indicator_lib \<Rightarrow> (nat \<Rightarrow> int) \<Rightarrow> PriceData list \<times> Backtester \<Rightarrow> PriceData
     \<Rightarrow> error + PriceData list \<times> Backtester" where
  "processBar cfg lib wall st currentData =
     (let (priceWindow0, s) = st;
          strategyPeriod = maPeriod (strategy s);
          priceWindow1 = priceWindow0 @ [currentData];
          priceWindow = (if strategyPeriod * 2 < length priceWindow1
                         then slice_last (strategyPeriod * 2) priceWindow1 else priceWindow1)
      in if length priceWindow < strategyPeriod then Inr (priceWindow, s)
         else
           let s1 = updatePositionValues (close currentData) s;
               s2 = checkPositionExits wall currentData s1;
               now = wall (tick s2);
               s3 = s2\<lparr> tick := Suc (tick s2) \<rparr>
           in case analyze (strategy s3) lib now priceWindow of
                Inl e \<Rightarrow> Inl e
              | Inr sg \<Rightarrow>
                  (let s4 = (case sg of
                               Some signal \<Rightarrow>
                                 if signal_type signal \<noteq> HOLD
                                 then processSignal cfg signal currentData s3 else s3
                             | None \<Rightarrow> s3)
                   in Inr (priceWindow, updateBalanceTracking s4)))"

fun runLoop ::
  "TradingConfig \<Rightarrow> indicator_lib \<Rightarrow> (nat \<Rightarrow> int) \<Rightarrow> PriceData list \<Rightarrow> PriceData list \<times> Backtester
     \<Rightarrow> error + PriceData list \<times> Backtester" where
  "runLoop cfg lib wall [] st = Inr st"
| "runLoop cfg lib wall (d # ds) st =
     (case processBar cfg lib wall st d of
        Inl e \<Rightarrow> Inl e
      | Inr st1 \<Rightarrow> runLoop cfg lib wall ds st1)"

text \<open>
  \<^verbatim>\<open>runBacktest\<close> on the bars that \<^verbatim>\<open>fetchHistoricalData\<close> has returned: the backtester
  after the run and the result.
\<close>

definition runBacktest ::
  "TradingConfig \<Rightarrow> indicator_lib \<Rightarrow> (nat \<Rightarrow> int) \<Rightarrow> PriceData list \<Rightarrow> Backtester
     \<Rightarrow> error + Backtester \<times> BacktestResult" where
  "runBacktest cfg lib wall historicalData s =
     (if historicalData = [] then Inl NoHistoricalData
      else
        case runLoop cfg lib wall historicalData ([], s) of
          Inl e \<Rightarrow> Inl e
        | Inr (priceWindow, s1) \<Rightarrow>
            (let s2 = closeAllPositions wall (close (last historicalData)) s1
             in case calculateResults s2 of
                  Inl e \<Rightarrow> Inl e
                | Inr result \<Rightarrow> Inr (s2, result)))"

section \<open>Notions used in the statements\<close>

text \<open>A strength in the unit interval: a finite number between zero and one.\<close>

definition unit_strength :: "decimal \<Rightarrow> bool" where
  "unit_strength d = (\<exists>s. d = Fin s \<and> 0 \<le> s \<and> s \<le> 1)"

text \<open>
  The Sharpe ratio as the specification words it: the mean of the per-trade percent returns,
  taken as fractions, over their population standard deviation, and zero when there are
  fewer than two closed positions or the deviation is zero.
\<close>

definition mean :: "real list \<Rightarrow> real" where
  "mean xs = sum_list xs / real (length xs)"




text \<open>
  The ledger is consistent when every position is OPEN or CLOSED and has a \<^verbatim>\<open>pnl\<close> exactly
  when it has a \<^verbatim>\<open>pnlPercent\<close>, every position has its BUY trade, and every CLOSED position
  has its SELL trade.
\<close>

definition sellTrades :: "Trade list \<Rightarrow> Trade list" where
  "sellTrades ts = filter (\<lambda>t. trade_side t = TradeSELL) ts"

definition buyTrades :: "Trade list \<Rightarrow> Trade list" where
  "buyTrades ts = filter (\<lambda>t. trade_side t = TradeBUY) ts"

definition ledger_consistent :: "Backtester \<Rightarrow> bool" where
  "ledger_consistent s =
     (list_all (\<lambda>p. (status p = OPEN \<or> status p = CLOSED) \<and> (pnl p = None) = (pnlPercent p = None))
               (positions s)
      \<and> length (sellTrades (trades s)) = length (filter (\<lambda>p. status p = CLOSED) (positions s))
      \<and> length (buyTrades (trades s)) = length (positions s))"

text \<open>
  The ledger is solvent when the cash balance is a finite number that is not negative and
  every position has a finite size that is not negative.
\<close>

definition solvent :: "Backtester \<Rightarrow> bool" where
  "solvent s =
     ((\<exists>b. balance s = Fin b \<and> 0 \<le> b)
      \<and> list_all (\<lambda>p. \<exists>sz. psize p = Fin sz \<and> 0 \<le> sz) (positions s))"

text \<open>The size that \<^verbatim>\<open>processSignal\<close> trades: \<^verbatim>\<open>validation.adjustedSize || positionSize\<close>.\<close>

definition tradedSize :: "Validation \<Rightarrow> decimal \<Rightarrow> decimal" where
  "tradedSize v positionSize = (case adjustedSize v of Some a \<Rightarrow> a | None \<Rightarrow> positionSize)"

section \<open>Example inputs\<close>

definition exampleConfig :: TradingConfig where
  "exampleConfig = \<lparr> cfg_maxPositionSize = 1000, cfg_riskPerTrade = 0.02, cfg_maPeriod = 2,
                      cfg_stdDevMultiplier = 2, cfg_minVolumeUsd = 1000 \<rparr>"

definition exampleLib :: indicator_lib where
  "exampleLib = \<lparr> RSI_calculate = (\<lambda>period vs. Some []), EMA_calculate = (\<lambda>period vs. Some []) \<rparr>"

text \<open>A bar as \<^verbatim>\<open>fetchHistoricalData\<close> builds it, with all four prices equal.\<close>

definition bar :: "int \<Rightarrow> real \<Rightarrow> PriceData" where
  "bar ts c = \<lparr> timestamp = ts, open_price = Fin c, high = Fin c, low = Fin c, close = Fin c,
                volume = Fin 1000000, source = ''coingecko-backtest'' \<rparr>"

definition exampleIndicators :: Indicators where
  "exampleIndicators = \<lparr> sma = Fin 100, upperBand = Fin 120, lowerBand = Fin 80, stdDev = Fin 10,
                          rsi = None, ema = None \<rparr>"

definition exampleSignal :: "real \<Rightarrow> TradingSignal" where
  "exampleSignal st =
     \<lparr> signal_type = BUY, strength = Fin st, price = Fin 100, signal_timestamp = 0,
       indicators = \<lparr> signal_sma = Fin 120, signal_upperBand = Fin 140, signal_lowerBand = Fin 100,
                      signal_stdDev = Fin 10, zScore = Fin (- 2) \<rparr>,
       reason = ''Price std devs below mean - moderate oversold'' \<rparr>"

definition examplePosition :: Position where
  "examplePosition =
     \<lparr> entryPrice = Fin 100, entryTime = 0, psize = Fin 2, side = LONG,
       stopLoss = Some (Fin 95), takeProfit = Some (Fin 110), currentPrice = None,
       pnl = None, pnlPercent = None, status = OPEN \<rparr>"


definition exampleBacktester :: Backtester where
  "exampleBacktester = (Backtester_new exampleConfig 10000)\<lparr> positions := [examplePosition] \<rparr>"

text \<open>
  A run of two bars, closes 3 and 1, with the period 2 and the clock standing at 7: the second
  bar gives a BUY signal of strength 0.5, 500 units are bought at 1, and the position is
  closed at 1 when the series ends.
\<close>

definition exampleBuySignal :: TradingSignal where
  "exampleBuySignal =
     \<lparr> signal_type = BUY, strength = Fin (1 / 2), price = Fin 1, signal_timestamp = 7,
       indicators = \<lparr> signal_sma = Fin 2, signal_upperBand = Fin 4, signal_lowerBand = Fin 0,
                      signal_stdDev = Fin 1, zScore = Fin (- 1) \<rparr>,
       reason = ''Price std devs below mean - moderate oversold'' \<rparr>"

definition exampleBoughtPosition :: Position where
  "exampleBoughtPosition =
     \<lparr> entryPrice = Fin 1, entryTime = 1, psize = Fin 500, side = LONG,
       stopLoss = Some (Fin (19 / 20)), takeProfit = Some (Fin (11 / 10)), currentPrice = None,
       pnl = None, pnlPercent = None, status = OPEN \<rparr>"

definition exampleBuyTrade :: Trade where
  "exampleBuyTrade =
     \<lparr> trade_timestamp = 1, trade_side = TradeBUY, trade_price = Fin 1, trade_size = Fin 500,
       fee = Fin (5 / 4), trade_status = SUCCESS \<rparr>"

definition exampleSellTrade :: Trade where
  "exampleSellTrade =
     \<lparr> trade_timestamp = 7, trade_side = TradeSELL, trade_price = Fin 1, trade_size = Fin 500,
       fee = Fin (5 / 4), trade_status = SUCCESS \<rparr>"

definition exampleAfterBuy :: Backtester where
  "exampleAfterBuy =
     (Backtester_new exampleConfig 10000)
       \<lparr> riskManager := (RiskManager_new exampleConfig)\<lparr> rm_peakBalance := Fin 10000 \<rparr>,
         balance := Fin (37995 / 4),
         positions := [exampleBoughtPosition],
         trades := [exampleBuyTrade],
         tick := 1 \<rparr>"

definition exampleAfterRun :: Backtester where
  "exampleAfterRun =
     exampleAfterBuy
       \<lparr> balance := Fin (19995 / 2),
         positions := [exampleBoughtPosition
                         \<lparr> status := CLOSED, currentPrice := Some (Fin 1), pnl := Some (Fin 0),
                           pnlPercent := Some (Fin 0) \<rparr>],
         trades := [exampleBuyTrade, exampleSellTrade],
         bt_maxDrawdown := Fin (1 / 8000),
         tick := 2 \<rparr>"

section \<open>Properties of the numbers\<close>

lemmas dec_defs = dgt_def dlte_def dgte_def dmin_def dminus_def signed_inf_def

lemmas strategy_defs = analyze_def calculateIndicators_def SMA_calculate_def sum_values_def
  slice_last_def generateSignal_def meanReversionLogic_def additionalFilters_def
  MeanReversionStrategy_new_def

lemmas risk_defs = validateTrade_def RiskManager_new_def isDailyLossLimitExceeded_def
  isDrawdownLimitExceeded_def calculateTotalExposure_def

lemma unit_strength_Fin [simp]: "unit_strength (Fin s) = (0 \<le> s \<and> s \<le> 1)"
  by (auto simp: unit_strength_def)

lemma unit_strength_special [simp]:
  "\<not> unit_strength NaN" "\<not> unit_strength PInf" "\<not> unit_strength NInf"
  by (auto simp: unit_strength_def)

lemma boost_unit: "0 \<le> c \<Longrightarrow> unit_strength d \<Longrightarrow> unit_strength (dmin (dplus d (Fin c)) (Fin 1))"
  by (cases d) (auto simp: dec_defs)

lemma scaled_abs_unit:
  "0 < k \<Longrightarrow> 0 \<le> c \<Longrightarrow> c \<le> 1 \<Longrightarrow> z \<noteq> NaN \<Longrightarrow> unit_strength (dmin (ddiv (dabs z) (Fin k)) (Fin c))"
proof (cases z)
  case (Fin x)
  assume k: "0 < k" and c: "0 \<le> c" "c \<le> 1"
  have "\<bar>x\<bar> / k \<le> 1 \<longleftrightarrow> \<bar>x\<bar> \<le> k" using k by (simp add: pos_divide_le_eq)
  then have "\<not> c < \<bar>x\<bar> / k \<Longrightarrow> \<bar>x\<bar> \<le> k" using c by linarith
  then show ?thesis using Fin c k by (auto simp: dec_defs)
qed (auto simp: dec_defs)




section \<open>Signal strength\<close>

lemma meanReversionLogic_unit: "unit_strength (fst (snd (meanReversionLogic P z r)))"
proof (cases "z = NaN")
  case True
  then show ?thesis by (simp add: meanReversionLogic_def dec_defs)
next
  case False
  have s3: "unit_strength (dmin (ddiv (dabs z) (Fin 3)) (Fin 1))"
    using False by (intro scaled_abs_unit) auto
  have s2: "unit_strength (dmin (ddiv (dabs z) (Fin 2)) (Fin 0.7))"
    using False by (intro scaled_abs_unit) auto
  have b3: "unit_strength (dmin (dplus (dmin (ddiv (dabs z) (Fin 3)) (Fin 1)) (Fin 0.2)) (Fin 1))"
    using s3 by (intro boost_unit) auto
  show ?thesis
    using s3 s2 b3 by (auto simp: meanReversionLogic_def Let_def split: option.splits)
qed

lemma additionalFilters_unit:
  "unit_strength s0 \<Longrightarrow> unit_strength (fst (additionalFilters t s0 r0 cp ind))"
  by (auto simp: additionalFilters_def Let_def boost_unit split: option.splits)

lemma generateSignal_unit:
  assumes "generateSignal P now cp z ind vol = Some sg"
  shows "unit_strength (strength sg)"
proof -
  obtain t s0 r0 where m: "meanReversionLogic P z (rsi ind) = (t, s0, r0)"
    by (cases "meanReversionLogic P z (rsi ind)") auto
  obtain s1 r1 where a: "additionalFilters t s0 r0 cp ind = (s1, r1)"
    by (cases "additionalFilters t s0 r0 cp ind") auto
  have "unit_strength s0" using meanReversionLogic_unit[of P z "rsi ind"] m by simp
  then have "unit_strength s1" using additionalFilters_unit[of s0 t r0 cp ind] a by simp
  moreover have "strength sg = s1"
    using assms m a by (auto simp: generateSignal_def split: if_splits)
  ultimately show ?thesis by simp
qed

lemma analyze_example:
  "analyze (MeanReversionStrategy_new exampleConfig) exampleLib 7 [bar 0 3, bar 1 1]
     = Inr (Some exampleBuySignal)"
  by (simp add: strategy_defs exampleConfig_def exampleLib_def bar_def dec_defs upt_rec Let_def
      exampleBuySignal_def)

text \<open>
  C8.  Every signal that \<^verbatim>\<open>analyze\<close> returns has a strength that is a finite number between
  0 and 1, whatever the window, the volume, the parameters and the values of the optional
  indicators, and however far the z-score lies from zero (an infinite z-score included).
\<close>

theorem analyze_strength_unit:
  assumes "analyze P lib now priceHistory = Inr (Some sg)"
  shows "\<exists>s. strength sg = Fin s \<and> 0 \<le> s \<and> s \<le> 1"
proof -
  from assms obtain cp z ind vol where "generateSignal P now cp z ind vol = Some sg"
    by (auto simp: analyze_def Let_def split: if_splits option.splits)
  then have "unit_strength (strength sg)" by (rule generateSignal_unit)
  then show ?thesis by (simp add: unit_strength_def)
qed

theorem analyze_strength_unit_witness:
  "\<exists>sg. analyze (MeanReversionStrategy_new exampleConfig) exampleLib 7 [bar 0 3, bar 1 1]
           = Inr (Some sg)
        \<and> (\<exists>s. strength sg = Fin s \<and> 0 \<le> s \<and> s \<le> 1)"
  using analyze_strength_unit [OF analyze_example] analyze_example by blast

section \<open>Classification of moderate z-scores\<close>

text \<open>
  C3, as amended.  With a non-negative entry threshold, a z-score strictly between
  \<open>entryThreshold\<close> and \<open>stdDevMultiplier\<close> is classified SELL and a z-score strictly
  between \<open>-stdDevMultiplier\<close> and \<open>-entryThreshold\<close> is classified BUY, both with the base
  strength \<open>min (|z| / 2) 0.7\<close>.  The comparisons of the source are strict: at
  \<open>z = entryThreshold\<close> and at \<open>z = -entryThreshold\<close> (below the multiplier) the
  classification is HOLD.
\<close>

theorem moderate_band_strict:
  assumes "0 \<le> entryThreshold P"
  shows "(entryThreshold P < z \<and> z < stdDevMultiplier P \<longrightarrow>
            meanReversionLogic P (Fin z) r
              = (SELL, Fin (min (\<bar>z\<bar> / 2) 0.7), ''Price std devs above mean - moderate overbought''))
       \<and> (- stdDevMultiplier P < z \<and> z < - entryThreshold P \<longrightarrow>
            meanReversionLogic P (Fin z) r
              = (BUY, Fin (min (\<bar>z\<bar> / 2) 0.7), ''Price std devs below mean - moderate oversold''))
       \<and> ((z = entryThreshold P \<or> z = - entryThreshold P) \<and> entryThreshold P < stdDevMultiplier P \<longrightarrow>
            fst (meanReversionLogic P (Fin z) r) = HOLD)"
  using assms by (auto simp: meanReversionLogic_def dec_defs Let_def min_def)

theorem moderate_band_strict_witness:
  "0 \<le> entryThreshold (MeanReversionStrategy_new exampleConfig)
   \<and> meanReversionLogic (MeanReversionStrategy_new exampleConfig) (Fin 1) None
       = (SELL, Fin (1 / 2), ''Price std devs above mean - moderate overbought'')
   \<and> meanReversionLogic (MeanReversionStrategy_new exampleConfig) (Fin (- 1)) None
       = (BUY, Fin (1 / 2), ''Price std devs below mean - moderate oversold'')
   \<and> fst (meanReversionLogic (MeanReversionStrategy_new exampleConfig) (Fin (1 / 2)) None) = HOLD
   \<and> fst (meanReversionLogic (MeanReversionStrategy_new exampleConfig) (Fin (- 1 / 2)) None) = HOLD"
  using moderate_band_strict [of "MeanReversionStrategy_new exampleConfig" 1 None]
        moderate_band_strict [of "MeanReversionStrategy_new exampleConfig" "- 1" None]
        moderate_band_strict [of "MeanReversionStrategy_new exampleConfig" "1 / 2" None]
        moderate_band_strict [of "MeanReversionStrategy_new exampleConfig" "- 1 / 2" None]
  by (simp add: MeanReversionStrategy_new_def exampleConfig_def)

text \<open>
  With inclusive bounds the statement fails at the boundary: with the default thresholds (entry 0.5,
  multiplier 2) and enough volume, the z-score 0.5 lies in the range
  \<open>entryThreshold \<le> z < stdDevMultiplier\<close>, and it is classified HOLD with strength 0, so
  that no signal is returned.
\<close>

theorem moderate_boundary_counterexample:
  "entryThreshold (MeanReversionStrategy_new exampleConfig) \<le> 1 / 2
   \<and> 1 / 2 < stdDevMultiplier (MeanReversionStrategy_new exampleConfig)
   \<and> \<not> dlt (Fin 1000000) (minVolume (MeanReversionStrategy_new exampleConfig))
   \<and> fst (meanReversionLogic (MeanReversionStrategy_new exampleConfig) (Fin (1 / 2)) None) \<noteq> SELL
   \<and> meanReversionLogic (MeanReversionStrategy_new exampleConfig) (Fin (1 / 2)) None = (HOLD, Fin 0, [])
   \<and> generateSignal (MeanReversionStrategy_new exampleConfig) 0 (Fin 105) (Fin (1 / 2))
        exampleIndicators (Fin 1000000) = None"
  by (simp add: meanReversionLogic_def generateSignal_def additionalFilters_def
      MeanReversionStrategy_new_def exampleConfig_def exampleIndicators_def dec_defs)

section \<open>Risk validation\<close>


text \<open>
  C2.  A call of \<^verbatim>\<open>validateTrade\<close> with at least \<open>maxOpenPositions\<close> open positions is
  rejected; hence an approved trade leaves room for one more position within
  \<open>maxOpenPositions\<close>.
\<close>

theorem validateTrade_maxOpenPositions:
  "(maxOpenPositions (params rm) \<le> int (length openPositions) \<longrightarrow>
      \<not> allowed (fst (validateTrade rm sg proposedSize currentBalance openPositions)))
   \<and> (allowed (fst (validateTrade rm sg proposedSize currentBalance openPositions)) \<longrightarrow>
      int (length openPositions) + 1 \<le> maxOpenPositions (params rm))"
  by (auto simp add: validateTrade_def)

theorem validateTrade_maxOpenPositions_witness:
  "maxOpenPositions (params (RiskManager_new exampleConfig))
     \<le> int (length [examplePosition, examplePosition, examplePosition])
   \<and> \<not> allowed (fst (validateTrade (RiskManager_new exampleConfig) (exampleSignal 0.5) (Fin 1)
                        (Fin 10000) [examplePosition, examplePosition, examplePosition]))
   \<and> allowed (fst (validateTrade (RiskManager_new exampleConfig) (exampleSignal 0.5) (Fin 1)
                      (Fin 10000) []))
   \<and> int (length ([] :: Position list)) + 1 \<le> maxOpenPositions (params (RiskManager_new exampleConfig))"
  using validateTrade_maxOpenPositions [of "RiskManager_new exampleConfig"
          "[examplePosition, examplePosition, examplePosition]" "exampleSignal 0.5" "Fin 1" "Fin 10000"]
        validateTrade_maxOpenPositions [of "RiskManager_new exampleConfig"
          "[]" "exampleSignal 0.5" "Fin 1" "Fin 10000"]
  by (simp add: risk_defs exampleConfig_def exampleSignal_def dec_defs)

text \<open>
  A weak signal is approved on one path only, the one that shrinks the size to the exposure
  headroom: every other approval has passed the strength check.
\<close>

lemma validateTrade_weak_signal_path:
  assumes "dlt (strength sg) (Fin 0.4)"
    and "allowed (fst (validateTrade rm sg proposedSize currentBalance openPositions))"
  shows "validation_reason (fst (validateTrade rm sg proposedSize currentBalance openPositions))
           = Some ''Position size adjusted due to exposure limits''"
  using assms by (auto simp: validateTrade_def Let_def split: if_splits prod.splits)

text \<open>
  C1.  A signal of strength below 0.4 is to be rejected on every path once the first three
  checks pass, the path that shrinks the size to the exposure headroom included.  The source
  does not do so: it returns from the exposure branch before it reaches the strength check.
  A signal of strength 0.35 at price 100, proposed at size 95 with a balance of 10000 and no
  open position, passes the first three checks and is approved with the size 50.
\<close>

theorem validateTrade_weak_signal_approved:
  "dlt (strength (exampleSignal 0.35)) (Fin 0.4)
   \<and> fst (validateTrade (RiskManager_new exampleConfig) (exampleSignal 0.35) (Fin 95) (Fin 10000) [])
       = \<lparr> allowed = True,
           validation_reason = Some ''Position size adjusted due to exposure limits'',
           adjustedSize = Some (Fin 50) \<rparr>"
  by (simp add: risk_defs exampleConfig_def exampleSignal_def dec_defs)





section \<open>Closing a position\<close>



section \<open>Sharpe ratio\<close>





section \<open>A flat price series\<close>








section \<open>The loop of the backtest\<close>

lemma runLoop_invariant:
  assumes "I st"
    and "\<And>st d. I st \<Longrightarrow> d \<in> set ds \<Longrightarrow> \<exists>st'. processBar cfg lib wall st d = Inr st' \<and> I st'"
  shows "\<exists>st'. runLoop cfg lib wall ds st = Inr st' \<and> I st'"
  using assms
proof (induction ds arbitrary: st)
  case Nil
  then show ?case by simp
next
  case (Cons d ds)
  from Cons.prems obtain st1 where st1: "processBar cfg lib wall st d = Inr st1" "I st1"
    by (meson list.set_intros(1))
  have "\<exists>st'. runLoop cfg lib wall ds st1 = Inr st' \<and> I st'"
    by (rule Cons.IH[OF st1(2)]) (use Cons.prems(2) in auto)
  then show ?case using st1 by simp
qed


lemma updateBalanceTracking_fields [simp]:
  "strategy (updateBalanceTracking s) = strategy s"
  "positions (updateBalanceTracking s) = positions s"
  "trades (updateBalanceTracking s) = trades s"
  "balance (updateBalanceTracking s) = balance s"
  by (simp_all add: updateBalanceTracking_def Let_def)

lemma updatePositionValues_fields [simp]:
  "strategy (updatePositionValues cp s) = strategy s"
  "trades (updatePositionValues cp s) = trades s"
  "balance (updatePositionValues cp s) = balance s"
  "length (positions (updatePositionValues cp s)) = length (positions s)"
  by (simp_all add: updatePositionValues_def)

lemma openIndices_Nil [simp]: "openIndices [] = []"
  by (simp add: openIndices_def)


lemma no_positions_exits: "positions s = [] \<Longrightarrow> checkPositionExits wall d s = s"
  by (simp add: checkPositionExits_def)





section \<open>Steps of the backtest preserve an invariant\<close>

lemma analyze_total:
  assumes "w \<noteq> []"
  shows "\<exists>r. analyze P lib now w = Inr r"
  using assms by (auto simp: analyze_def Let_def split: option.splits)

lemma analyze_price:
  assumes "analyze P lib now w = Inr (Some sg)"
  shows "w \<noteq> [] \<and> price sg = close (last w)"
proof -
  from assms have ne: "w \<noteq> []"
    by (auto simp: analyze_def Let_def split: if_splits)
  from assms obtain z ind vol where "generateSignal P now (last (map close w)) z ind vol = Some sg"
    by (auto simp: analyze_def Let_def split: if_splits option.splits)
  then have "price sg = last (map close w)"
    by (auto simp: generateSignal_def split: if_splits prod.splits)
  then show ?thesis using ne by (simp add: last_map)
qed

lemma window_trim:
  "(if k < length (w @ [d]) then slice_last k (w @ [d]) else w @ [d]) \<noteq> []
   \<and> last (if k < length (w @ [d]) then slice_last k (w @ [d]) else w @ [d]) = d"
  by (auto simp: slice_last_def)

lemma processBar_preserves:
  assumes Q: "Q s"
    and upd: "\<And>s. Q s \<Longrightarrow> Q (updatePositionValues (close d) s)"
    and chk: "\<And>s. Q s \<Longrightarrow> Q (checkPositionExits wall d s)"
    and tck: "\<And>s n. Q s \<Longrightarrow> Q (s\<lparr> tick := n \<rparr>)"
    and sig: "\<And>s sg now w. Q s \<Longrightarrow> w \<noteq> [] \<Longrightarrow> last w = d
                \<Longrightarrow> analyze (strategy s) lib now w = Inr (Some sg) \<Longrightarrow> Q (processSignal cfg sg d s)"
    and ubt: "\<And>s. Q s \<Longrightarrow> Q (updateBalanceTracking s)"
  shows "\<exists>w' s'. processBar cfg lib wall (w, s) d = Inr (w', s') \<and> Q s'"
proof -
  let ?p = "maPeriod (strategy s)"
  let ?w = "if ?p * 2 < length (w @ [d]) then slice_last (?p * 2) (w @ [d]) else w @ [d]"
  have w: "?w \<noteq> []" "last ?w = d" using window_trim[of "?p * 2" w d] by simp_all
  show ?thesis
  proof (cases "length ?w < ?p")
    case True
    then show ?thesis using Q by (simp add: processBar_def Let_def)
  next
    case False
    let ?s2 = "checkPositionExits wall d (updatePositionValues (close d) s)"
    let ?s3 = "?s2\<lparr> tick := Suc (tick ?s2) \<rparr>"
    have q3: "Q ?s3" by (intro tck chk upd Q)
    obtain r where r: "analyze (strategy ?s3) lib (wall (tick ?s2)) ?w = Inr r"
      using analyze_total[OF w(1)] by blast
    let ?s4 = "case r of Some signal \<Rightarrow>
                 if signal_type signal \<noteq> HOLD then processSignal cfg signal d ?s3 else ?s3
               | None \<Rightarrow> ?s3"
    have "Q ?s4"
    proof (cases r)
      case None
      then show ?thesis using q3 by simp
    next
      case (Some sg)
      then show ?thesis using q3 sig[OF q3 w r[unfolded Some]] by simp
    qed
    then have "Q (updateBalanceTracking ?s4)" by (rule ubt)
    moreover have "processBar cfg lib wall (w, s) d = Inr (?w, updateBalanceTracking ?s4)"
      using False r by (simp add: processBar_def Let_def)
    ultimately show ?thesis by blast
  qed
qed

lemma foldl_preserves:
  assumes "Q s" and "\<And>s i. Q s \<Longrightarrow> i \<in> set xs \<Longrightarrow> Q (f s i)"
  shows "Q (foldl f s xs)"
  using assms by (induction xs arbitrary: s) auto

lemma openIndices_bound: "i \<in> set (openIndices ps) \<Longrightarrow> i < length ps"
  by (simp add: openIndices_def)

lemma executeSell_length [simp]: "length (positions (executeSell i pr ts s)) = length (positions s)"
  by (simp add: executeSell_def Let_def)

lemma checkPositionExits_preserves:
  assumes Q: "Q s"
    and tck: "\<And>s n. Q s \<Longrightarrow> Q (s\<lparr> tick := n \<rparr>)"
    and sell: "\<And>s i ts. Q s \<Longrightarrow> i < length (positions s) \<Longrightarrow> Q (executeSell i (close d) ts s)"
  shows "Q (checkPositionExits wall d s)"
proof -
  let ?n = "length (positions s)"
  let ?Q = "\<lambda>s. Q s \<and> length (positions s) = ?n"
  have "?Q (foldl (\<lambda>s1 i.
              let now = wall (tick s1);
                  s2 = s1\<lparr> tick := Suc (tick s1) \<rparr>
              in if shouldClose (shouldClosePosition now (positions s2 ! i))
                 then executeSell i (close d) (timestamp d) s2
                 else s2) s (openIndices (positions s)))"
  proof (rule foldl_preserves)
    show "?Q s" using Q by simp
  next
    fix s1 i
    assume q: "?Q s1" and i: "i \<in> set (openIndices (positions s))"
    then have b: "i < length (positions (s1\<lparr> tick := Suc (tick s1) \<rparr>))"
      using openIndices_bound[OF i] by simp
    have q2: "Q (s1\<lparr> tick := Suc (tick s1) \<rparr>)" using q tck by blast
    show "?Q (let now = wall (tick s1); s2 = s1\<lparr> tick := Suc (tick s1) \<rparr>
              in if shouldClose (shouldClosePosition now (positions s2 ! i))
                 then executeSell i (close d) (timestamp d) s2 else s2)"
      using q q2 sell[OF q2 b] by (simp add: Let_def)
  qed
  then show ?thesis by (simp add: checkPositionExits_def)
qed

lemma closeAllPositions_preserves:
  assumes Q: "Q s"
    and tck: "\<And>s n. Q s \<Longrightarrow> Q (s\<lparr> tick := n \<rparr>)"
    and sell: "\<And>s i ts. Q s \<Longrightarrow> i < length (positions s) \<Longrightarrow> Q (executeSell i pr ts s)"
  shows "Q (closeAllPositions wall pr s)"
proof -
  let ?n = "length (positions s)"
  let ?Q = "\<lambda>s. Q s \<and> length (positions s) = ?n"
  have "?Q (foldl (\<lambda>s1 i. executeSell i pr (wall (tick s1)) (s1\<lparr> tick := Suc (tick s1) \<rparr>))
              s (openIndices (positions s)))"
  proof (rule foldl_preserves)
    show "?Q s" using Q by simp
  next
    fix s1 i
    assume q: "?Q s1" and i: "i \<in> set (openIndices (positions s))"
    then have b: "i < length (positions (s1\<lparr> tick := Suc (tick s1) \<rparr>))"
      using openIndices_bound[OF i] by simp
    have q2: "Q (s1\<lparr> tick := Suc (tick s1) \<rparr>)" using q tck by blast
    show "?Q (executeSell i pr (wall (tick s1)) (s1\<lparr> tick := Suc (tick s1) \<rparr>))"
      using q sell[OF q2 b] by simp
  qed
  then show ?thesis by (simp add: closeAllPositions_def)
qed

section \<open>Every position is closed at the end of a run\<close>

lemma filter_update_count:
  assumes "i < length xs" and "\<not> P (xs ! i)" and "P y"
  shows "length (filter P (xs[i := y])) = Suc (length (filter P xs))"
  using assms
proof (induction xs arbitrary: i)
  case Nil
  then show ?case by simp
next
  case (Cons x xs)
  then show ?case by (cases i) auto
qed

lemma ledger_consistent_cong:
  "positions s' = positions s \<Longrightarrow> trades s' = trades s
     \<Longrightarrow> ledger_consistent s' = ledger_consistent s"
  by (simp add: ledger_consistent_def)

lemma ledger_consistent_tick: "ledger_consistent (s\<lparr> tick := n \<rparr>) = ledger_consistent s"
  by (simp add: ledger_consistent_def)

lemma ledger_consistent_riskManager:
  "ledger_consistent (s\<lparr> riskManager := rm \<rparr>) = ledger_consistent s"
  by (simp add: ledger_consistent_def)

lemma ledger_consistent_executeSell:
  assumes "ledger_consistent s" and "i < length (positions s)"
  shows "ledger_consistent (executeSell i pr ts s)"
proof (cases "status (positions s ! i) = OPEN")
  case False
  then show ?thesis using assms by (simp add: executeSell_def Let_def)
next
  case True
  let ?p = "(positions s ! i)\<lparr> status := CLOSED, currentPrice := Some pr,
              pnl := Some (dminus (dmul pr (psize (positions s ! i)))
                                  (dmul (entryPrice (positions s ! i)) (psize (positions s ! i)))),
              pnlPercent := Some (dmul (ddiv (dminus (dmul pr (psize (positions s ! i)))
                                  (dmul (entryPrice (positions s ! i)) (psize (positions s ! i))))
                                  (dmul (entryPrice (positions s ! i)) (psize (positions s ! i))))
                                  (Fin 100)) \<rparr>"
  have e: "executeSell i pr ts s
             = s\<lparr> balance := dplus (balance s)
                     (dminus (dmul (psize (positions s ! i)) pr)
                             (dmul (dmul (psize (positions s ! i)) pr) (Fin 0.0025))),
                  trades := trades s @ [\<lparr> trade_timestamp = ts, trade_side = TradeSELL,
                     trade_price = pr, trade_size = psize (positions s ! i),
                     fee = dmul (dmul (psize (positions s ! i)) pr) (Fin 0.0025),
                     trade_status = SUCCESS \<rparr>],
                  positions := (positions s)[i := ?p] \<rparr>"
    using True by (simp add: executeSell_def Let_def)
  have cnt: "length (filter (\<lambda>p. status p = CLOSED) ((positions s)[i := ?p]))
               = Suc (length (filter (\<lambda>p. status p = CLOSED) (positions s)))"
    using assms(2) True by (intro filter_update_count) auto
  have all: "list_all (\<lambda>p. (status p = OPEN \<or> status p = CLOSED) \<and> (pnl p = None) = (pnlPercent p = None))
               ((positions s)[i := ?p])"
    using assms(1) set_update_subset_insert[of "positions s" i ?p]
    by (auto simp: ledger_consistent_def list_all_iff)
  show ?thesis
    using assms(1) cnt all unfolding e
    by (simp add: ledger_consistent_def sellTrades_def buyTrades_def)
qed

lemma ledger_consistent_executeBuy:
  assumes "ledger_consistent s"
  shows "ledger_consistent (executeBuy sz pr ts s)"
  using assms by (simp add: executeBuy_def Let_def ledger_consistent_def sellTrades_def buyTrades_def)

lemma filter_map_invariant:
  assumes "\<And>x. P (f x) = P x"
  shows "length (filter P (map f xs)) = length (filter P xs)"
  by (induction xs) (simp_all add: assms)

lemma ledger_consistent_updatePositionValues:
  assumes "ledger_consistent s"
  shows "ledger_consistent (updatePositionValues cp s)"
proof -
  define f where "f = (\<lambda>position :: Position.
              if status position = OPEN then
                (let entryValue = dmul (entryPrice position) (psize position);
                     currentValue = dmul cp (psize position);
                     pnl0 = dminus currentValue entryValue
                 in position\<lparr> currentPrice := Some cp, pnl := Some pnl0,
                               pnlPercent := Some (dmul (ddiv pnl0 entryValue) (Fin 100)) \<rparr>)
              else position)"
  have u: "updatePositionValues cp s = s\<lparr> positions := map f (positions s) \<rparr>"
    by (simp add: updatePositionValues_def f_def)
  have st: "status (f p) = status p" for p by (simp add: f_def Let_def)
  have pn: "(pnl (f p) = None) = (pnlPercent (f p) = None)"
    if "(pnl p = None) = (pnlPercent p = None)" for p
    using that by (simp add: f_def Let_def)
  have cnt: "length (filter (\<lambda>p. status p = CLOSED) (map f (positions s)))
               = length (filter (\<lambda>p. status p = CLOSED) (positions s))"
    by (rule filter_map_invariant) (simp add: st)
  have all: "list_all (\<lambda>p. (status p = OPEN \<or> status p = CLOSED) \<and> (pnl p = None) = (pnlPercent p = None))
               (map f (positions s))"
    using assms by (auto simp: ledger_consistent_def list_all_iff st pn)
  show ?thesis
    using assms cnt all unfolding u by (simp add: ledger_consistent_def)
qed

lemma ledger_consistent_processSignal:
  assumes "ledger_consistent s"
  shows "ledger_consistent (processSignal cfg sg d s)"
proof -
  obtain v rm1 where v: "validateTrade (riskManager s) sg
       (calculatePositionSize cfg (strategy s) sg (balance s) (price sg)) (balance s)
       (openPositionsOf (positions s)) = (v, rm1)"
    by (cases "validateTrade (riskManager s) sg
       (calculatePositionSize cfg (strategy s) sg (balance s) (price sg)) (balance s)
       (openPositionsOf (positions s))") auto
  let ?s1 = "s\<lparr> riskManager := rm1 \<rparr>"
  have s1: "ledger_consistent ?s1" using assms by (simp add: ledger_consistent_riskManager)
  have hd: "openIndices (positions s) \<noteq> [] \<Longrightarrow> hd (openIndices (positions s)) < length (positions ?s1)"
    using openIndices_bound[of "hd (openIndices (positions s))" "positions s"] by simp
  show ?thesis
    using v s1 hd
    by (auto simp: processSignal_def Let_def
             intro: ledger_consistent_executeBuy ledger_consistent_executeSell)
qed

lemma ledger_consistent_processBar:
  assumes "ledger_consistent s"
  shows "\<exists>w' s'. processBar cfg lib wall (w, s) d = Inr (w', s') \<and> ledger_consistent s'"
proof (rule processBar_preserves[where Q = ledger_consistent])
  show "ledger_consistent (checkPositionExits wall d s)" if "ledger_consistent s" for s
    using that
    by (rule checkPositionExits_preserves)
       (simp_all add: ledger_consistent_tick ledger_consistent_executeSell)
qed (use assms in \<open>simp_all add: ledger_consistent_tick ledger_consistent_updatePositionValues
       ledger_consistent_processSignal ledger_consistent_cong[of "updateBalanceTracking _"]\<close>)

lemma set_openIndices: "set (openIndices ps) = {j. j < length ps \<and> status (ps ! j) = OPEN}"
  by (auto simp: openIndices_def)

lemma openIndices_executeSell:
  "set (openIndices (positions (executeSell i pr ts s))) = set (openIndices (positions s)) - {i}"
proof (cases "i < length (positions s) \<and> status (positions s ! i) = OPEN")
  case True
  then show ?thesis
    by (auto simp: set_openIndices executeSell_def Let_def nth_list_update split: if_splits)
next
  case False
  then have "i \<notin> set (openIndices (positions s))" by (auto simp: set_openIndices)
  moreover have "positions (executeSell i pr ts s) = positions s"
    using False by (auto simp: executeSell_def Let_def list_update_beyond)
  ultimately show ?thesis by simp
qed

lemma openIndices_fold_sell:
  "set (openIndices (positions
          (foldl (\<lambda>s1 i. executeSell i pr (wall (tick s1)) (s1\<lparr> tick := Suc (tick s1) \<rparr>)) s xs)))
     = set (openIndices (positions s)) - set xs"
proof (induction xs arbitrary: s)
  case Nil
  then show ?case by simp
next
  case (Cons x xs)
  have "set (openIndices (positions (executeSell x pr (wall (tick s)) (s\<lparr> tick := Suc (tick s) \<rparr>))))
          = set (openIndices (positions s)) - {x}"
    using openIndices_executeSell[of x pr "wall (tick s)" "s\<lparr> tick := Suc (tick s) \<rparr>"] by simp
  then show ?case using Cons.IH by auto
qed

lemma closeAllPositions_none_open:
  "\<forall>p \<in> set (positions (closeAllPositions wall pr s)). status p \<noteq> OPEN"
proof -
  have "set (openIndices (positions (closeAllPositions wall pr s))) = {}"
    unfolding closeAllPositions_def by (simp only: openIndices_fold_sell) simp
  then show ?thesis by (auto simp: set_openIndices in_set_conv_nth)
qed

lemma ledger_consistent_closeAllPositions:
  assumes "ledger_consistent s"
  shows "ledger_consistent (closeAllPositions wall pr s)"
  using assms
  by (rule closeAllPositions_preserves)
     (simp_all add: ledger_consistent_tick ledger_consistent_executeSell)

lemma calculateSharpeRatio_total:
  assumes "\<not> list_ex (\<lambda>p. pnlPercent p = None) (filter (\<lambda>p. pnl p \<noteq> None) ps)"
  shows "\<exists>x. calculateSharpeRatio ps = Inr x"
  using assms by (simp add: calculateSharpeRatio_def Let_def)

lemma calculateResults_consistent:
  assumes "ledger_consistent s"
  shows "\<exists>r. calculateResults s = Inr r \<and> result_trades r = trades s
           \<and> totalTrades r = length (filter (\<lambda>p. status p = CLOSED) (positions s))"
proof -
  have "\<not> list_ex (\<lambda>p. pnlPercent p = None)
            (filter (\<lambda>p. pnl p \<noteq> None) (filter (\<lambda>p. status p = CLOSED) (positions s)))"
    using assms by (auto simp: ledger_consistent_def list_all_iff list_ex_iff)
  from calculateSharpeRatio_total[OF this]
  obtain x where "calculateSharpeRatio (filter (\<lambda>p. status p = CLOSED) (positions s)) = Inr x"
    by blast
  then show ?thesis by (simp add: calculateResults_def Let_def)
qed

text \<open>
  C6.  A run on a non-empty series that starts with an empty ledger completes; after it every
  position of the ledger is CLOSED, the trade list of the result is the trade log, and it
  holds as many SELL trades (and as many BUY trades) as there are positions: one SELL trade
  for each position opened.
\<close>

theorem runBacktest_closes_every_position:
  assumes "historicalData \<noteq> []" and "positions s0 = []" and "trades s0 = []"
  shows "\<exists>s r. runBacktest cfg lib wall historicalData s0 = Inr (s, r)
           \<and> (\<forall>p \<in> set (positions s). status p = CLOSED)
           \<and> result_trades r = trades s
           \<and> length (sellTrades (result_trades r)) = length (positions s)
           \<and> length (buyTrades (result_trades r)) = length (positions s)
           \<and> totalTrades r = length (positions s)"
proof -
  let ?I = "\<lambda>st :: PriceData list \<times> Backtester. ledger_consistent (snd st)"
  have "\<exists>st'. runLoop cfg lib wall historicalData ([], s0) = Inr st' \<and> ?I st'"
  proof (rule runLoop_invariant)
    show "?I ([], s0)"
      using assms by (simp add: ledger_consistent_def sellTrades_def buyTrades_def)
  next
    fix st d
    assume "?I st"
    then show "\<exists>st'. processBar cfg lib wall st d = Inr st' \<and> ?I st'"
      using ledger_consistent_processBar[of "snd st" cfg lib wall "fst st" d] by auto
  qed
  then obtain w s1 where run: "runLoop cfg lib wall historicalData ([], s0) = Inr (w, s1)"
    and s1: "ledger_consistent s1"
    by auto
  let ?s2 = "closeAllPositions wall (close (last historicalData)) s1"
  have lc: "ledger_consistent ?s2" using s1 by (rule ledger_consistent_closeAllPositions)
  have closed: "\<forall>p \<in> set (positions ?s2). status p = CLOSED"
    using lc closeAllPositions_none_open[of wall "close (last historicalData)" s1]
    by (auto simp: ledger_consistent_def list_all_iff)
  then have all: "filter (\<lambda>p. status p = CLOSED) (positions ?s2) = positions ?s2"
    by (simp add: filter_id_conv)
  from calculateResults_consistent[OF lc] obtain r
    where r: "calculateResults ?s2 = Inr r" "result_trades r = trades ?s2"
      "totalTrades r = length (filter (\<lambda>p. status p = CLOSED) (positions ?s2))"
    by blast
  have "runBacktest cfg lib wall historicalData s0 = Inr (?s2, r)"
    using assms(1) run r(1) by (simp add: runBacktest_def Let_def)
  moreover have "length (sellTrades (result_trades r)) = length (positions ?s2)"
    and "length (buyTrades (result_trades r)) = length (positions ?s2)"
    and "totalTrades r = length (positions ?s2)"
    using lc r all by (simp_all add: ledger_consistent_def)
  ultimately show ?thesis using closed r(2) by blast
qed

section \<open>The cash balance\<close>

lemma solvent_tick: "solvent (s\<lparr> tick := n \<rparr>) = solvent s"
  by (simp add: solvent_def)

lemma solvent_riskManager: "solvent (s\<lparr> riskManager := rm \<rparr>) = solvent s"
  by (simp add: solvent_def)

lemma solvent_updateBalanceTracking: "solvent (updateBalanceTracking s) = solvent s"
  by (simp add: solvent_def)

lemma solvent_updatePositionValues:
  assumes "solvent s"
  shows "solvent (updatePositionValues cp s)"
  using assms by (auto simp: solvent_def updatePositionValues_def list_all_iff Let_def)

lemma executeSell_balance:
  assumes "i < length (positions s)" and "status (positions s ! i) = OPEN"
    and "psize (positions s ! i) = Fin q" and "0 \<le> q" and "0 \<le> c"
  shows "balance (executeSell i (Fin c) ts s) = dplus (balance s) (Fin (q * c - q * c * 0.0025))
       \<and> 0 \<le> q * c - q * c * 0.0025"
proof -
  define x where "x = q * c"
  have "0 \<le> x" using assms by (simp add: x_def)
  then have "0 \<le> x - x * 0.0025" by simp
  then have nn: "0 \<le> q * c - q * c * 0.0025" by (simp only: x_def)
  have "balance (executeSell i (Fin c) ts s) = dplus (balance s) (Fin (q * c - q * c * 0.0025))"
    using assms by (simp add: executeSell_def Let_def dminus_def)
  then show ?thesis using nn by blast
qed

lemma list_all_update:
  assumes "list_all P xs" and "P y"
  shows "list_all P (xs[i := y])"
  using assms
proof (induction xs arbitrary: i)
  case Nil
  then show ?case by simp
next
  case (Cons x xs)
  then show ?case by (cases i) auto
qed

lemma solvent_executeSell:
  assumes "solvent s" and "i < length (positions s)" and "0 \<le> c"
  shows "solvent (executeSell i (Fin c) ts s)"
proof (cases "status (positions s ! i) = OPEN")
  case False
  then show ?thesis using assms by (simp add: executeSell_def Let_def)
next
  case True
  from assms(1,2) obtain q where q: "psize (positions s ! i) = Fin q" "0 \<le> q"
    by (auto simp: solvent_def list_all_length)
  from assms(1) obtain b where b: "balance s = Fin b" "0 \<le> b"
    by (auto simp: solvent_def)
  from executeSell_balance[OF assms(2) True q assms(3), of ts]
  have bal: "\<exists>b'. balance (executeSell i (Fin c) ts s) = Fin b' \<and> 0 \<le> b'"
    using b by simp
  have "list_all (\<lambda>p. \<exists>sz. psize p = Fin sz \<and> 0 \<le> sz) (positions (executeSell i (Fin c) ts s))"
    using assms(1) True q
    by (auto simp: executeSell_def Let_def solvent_def intro!: list_all_update)
  then show ?thesis using bal by (simp add: solvent_def)
qed

lemma executeBuy_unaffordable:
  assumes "dlt (balance s) (dplus (dmul sz pr) (dmul (dmul sz pr) (Fin 0.0025)))"
  shows "executeBuy sz pr ts s = s"
  using assms by (simp add: executeBuy_def Let_def)

lemma solvent_executeBuy:
  assumes "solvent s" and "0 \<le> f"
  shows "solvent (executeBuy (Fin f) (Fin c) ts s)"
proof -
  from assms(1) obtain b where b: "balance s = Fin b" "0 \<le> b"
    by (auto simp: solvent_def)
  show ?thesis
    using assms b by (auto simp: executeBuy_def Let_def solvent_def dminus_def)
qed

lemma validateTrade_tradedSize:
  assumes "allowed (fst (validateTrade rm sg q (Fin b) ops))" and "price sg = Fin c" and "0 < c"
  shows "(\<exists>f. tradedSize (fst (validateTrade rm sg q (Fin b) ops)) q = Fin f \<and> 0 < f)
       \<or> tradedSize (fst (validateTrade rm sg q (Fin b) ops)) q = PInf
       \<or> tradedSize (fst (validateTrade rm sg q (Fin b) ops)) q = NaN"
proof -
  obtain ex rm1 where d: "isDrawdownLimitExceeded rm (Fin b) = (ex, rm1)"
    by (cases "isDrawdownLimitExceeded rm (Fin b)") auto
  let ?cur = "calculateTotalExposure ops"
  show ?thesis
  proof (cases "dgt (dplus ?cur (dmul q (Fin c))) (Fin (b * 0.5))")
    case True
    with assms d have av: "\<not> dlte (dminus (Fin (b * 0.5)) ?cur) (Fin 0)"
      and a: "tradedSize (fst (validateTrade rm sg q (Fin b) ops)) q
                = ddiv (dminus (Fin (b * 0.5)) ?cur) (Fin c)"
      by (auto simp: validateTrade_def tradedSize_def Let_def split: if_splits)
    from True av have "\<exists>f. ddiv (dminus (Fin (b * 0.5)) ?cur) (Fin c) = Fin f \<and> 0 < f"
      using assms(3) by (cases ?cur; cases q) (auto simp: dec_defs)
    then show ?thesis using a by simp
  next
    case False
    let ?fin = "dmin (dmin q (ddiv (dmul (Fin b) (riskPerTrade (params rm1))) (dmul (Fin c) (Fin 0.05))))
                     (maxPositionSize (params rm1))"
    from False assms d have dust: "\<not> dlt (dmul ?fin (Fin c)) (Fin 10)"
      and t: "tradedSize (fst (validateTrade rm sg q (Fin b) ops)) q
                = (if \<not> deq ?fin q then ?fin else q)"
      by (auto simp: validateTrade_def tradedSize_def Let_def split: if_splits)
    have eq: "deq ?fin q \<Longrightarrow> q = ?fin" by (cases ?fin; cases q) auto
    have "(\<exists>f. ?fin = Fin f \<and> 0 < f) \<or> ?fin = PInf \<or> ?fin = NaN"
    proof (cases ?fin)
      case (Fin f)
      with dust have "10 \<le> f * c" by simp
      have "0 < f"
      proof (rule ccontr)
        assume "\<not> 0 < f"
        then have "f * c \<le> 0" using assms(3) by (simp add: mult_nonpos_nonneg)
        with \<open>10 \<le> f * c\<close> show False by simp
      qed
      then show ?thesis using Fin by simp
    next
      case NInf
      with dust assms(3) show ?thesis by (simp add: dec_defs)
    qed simp_all
    then show ?thesis using t eq by (cases "deq ?fin q") auto
  qed
qed

lemma solvent_processSignal:
  assumes "solvent s" and "price sg = Fin c" and "0 < c"
  shows "solvent (processSignal cfg sg d s)"
proof -
  from assms(1) obtain b where b: "balance s = Fin b" "0 \<le> b"
    by (auto simp: solvent_def)
  let ?q = "calculatePositionSize cfg (strategy s) sg (balance s) (price sg)"
  let ?vt = "validateTrade (riskManager s) sg ?q (Fin b) (openPositionsOf (positions s))"
  obtain v rm1 where v: "?vt = (v, rm1)" by (cases ?vt) auto
  let ?s1 = "s\<lparr> riskManager := rm1 \<rparr>"
  have s1: "solvent ?s1" using assms(1) by (simp add: solvent_riskManager)
  show ?thesis
  proof (cases "allowed v")
    case False
    then show ?thesis using v s1 b by (simp add: processSignal_def Let_def)
  next
    case True
    let ?fs = "tradedSize v ?q"
    have size: "(\<exists>f. ?fs = Fin f \<and> 0 < f) \<or> ?fs = PInf \<or> ?fs = NaN"
      using validateTrade_tradedSize[of "riskManager s" sg ?q b "openPositionsOf (positions s)" c]
        True v assms(2,3) by simp
    have buy: "solvent (executeBuy ?fs (Fin c) (timestamp d) ?s1)"
      if "dgte (Fin b) (dmul ?fs (Fin c))"
    proof -
      from size that assms(3) obtain f where "?fs = Fin f" "0 < f"
        by (auto simp: dec_defs)
      then show ?thesis using solvent_executeBuy[OF s1, of f c "timestamp d"] by simp
    qed
    have sell: "solvent (executeSell (hd (openIndices (positions s))) (Fin c) (timestamp d) ?s1)"
      if "openIndices (positions s) \<noteq> []"
    proof -
      have "hd (openIndices (positions s)) < length (positions ?s1)"
        using that openIndices_bound[of "hd (openIndices (positions s))" "positions s"] by simp
      then show ?thesis using s1 assms(3) by (intro solvent_executeSell) auto
    qed
    show ?thesis
      using True v s1 b assms(2) buy sell
      by (auto simp: processSignal_def Let_def tradedSize_def)
  qed
qed

lemma solvent_processBar:
  assumes "solvent s" and "close d = Fin c" and "0 < c"
  shows "\<exists>w' s'. processBar cfg lib wall (w, s) d = Inr (w', s') \<and> solvent s'"
proof (rule processBar_preserves[where Q = solvent])
  show "solvent (checkPositionExits wall d s)" if "solvent s" for s
    using that assms(2,3)
    by (intro checkPositionExits_preserves[where Q = solvent])
       (simp_all add: solvent_tick solvent_executeSell)
next
  fix s sg now w
  assume "solvent s" and "w \<noteq> []" and "last w = d"
    and "analyze (strategy s) lib now w = Inr (Some sg)"
  then show "solvent (processSignal cfg sg d s)"
    using analyze_price[of "strategy s" lib now w sg] assms(2,3)
    by (intro solvent_processSignal[where c = c]) auto
qed (use assms in \<open>simp_all add: solvent_tick solvent_updatePositionValues
       solvent_updateBalanceTracking\<close>)

lemma solvent_closeAllPositions:
  assumes "solvent s" and "0 \<le> c"
  shows "solvent (closeAllPositions wall (Fin c) s)"
  using assms
  by (intro closeAllPositions_preserves[where Q = solvent])
     (simp_all add: solvent_tick solvent_executeSell)

lemma calculateResults_finalBalance:
  "calculateResults s = Inr r \<Longrightarrow> finalBalance r = balance s"
  by (auto simp: calculateResults_def Let_def split: sum.splits)

text \<open>
  C10.  On bars with finite positive closes, a run that starts with an empty ledger and a
  balance that is not negative keeps the balance a finite number that is not negative: after
  every bar of the loop, and after the forced close at the end.  Two facts carry this.
  \<^verbatim>\<open>executeBuy\<close> returns the backtester as it was when the balance is below cost plus fee.
  \<^verbatim>\<open>executeSell\<close> on an open position of size \<open>q \<ge> 0\<close> at a price \<open>c \<ge> 0\<close> adds the net
  proceeds \<open>q * c - q * c * 0.0025 \<ge> 0\<close> to the balance.
\<close>

theorem backtest_balance_not_negative:
  assumes "balance s0 = Fin b0" and "0 \<le> b0" and "positions s0 = []" and "trades s0 = []"
    and "historicalData \<noteq> []"
    and "\<forall>d \<in> set historicalData. \<exists>c. close d = Fin c \<and> 0 < c"
  shows "(\<forall>k \<le> length historicalData.
            \<exists>w s b. runLoop cfg lib wall (take k historicalData) ([], s0) = Inr (w, s)
                    \<and> balance s = Fin b \<and> 0 \<le> b)
       \<and> (\<exists>s r b. runBacktest cfg lib wall historicalData s0 = Inr (s, r)
                    \<and> balance s = Fin b \<and> 0 \<le> b \<and> finalBalance r = Fin b)
       \<and> (dlt (balance bt) (dplus (dmul sz pr) (dmul (dmul sz pr) (Fin 0.0025)))
            \<longrightarrow> executeBuy sz pr ts bt = bt)
       \<and> (i < length (positions bt) \<and> status (positions bt ! i) = OPEN
            \<and> psize (positions bt ! i) = Fin q \<and> 0 \<le> q \<and> 0 \<le> c
            \<longrightarrow> balance (executeSell i (Fin c) ts bt)
                  = dplus (balance bt) (Fin (q * c - q * c * 0.0025))
                \<and> 0 \<le> q * c - q * c * 0.0025)"
proof -
  let ?I = "\<lambda>st :: PriceData list \<times> Backtester. ledger_consistent (snd st) \<and> solvent (snd st)"
  have init: "?I ([], s0)"
    using assms by (simp add: ledger_consistent_def solvent_def sellTrades_def buyTrades_def)
  have loop: "\<exists>st'. runLoop cfg lib wall ds ([], s0) = Inr st' \<and> ?I st'"
    if "set ds \<subseteq> set historicalData" for ds
  proof (rule runLoop_invariant[where I = ?I, OF init])
    fix st d
    assume I: "?I st" and d: "d \<in> set ds"
    obtain w s where st: "st = (w, s)" by (cases st)
    from d that assms(6) obtain c where c: "close d = Fin c" "0 < c" by blast
    from I st have lc: "ledger_consistent s" and so: "solvent s" by simp_all
    from ledger_consistent_processBar[OF lc, of cfg lib wall w d]
    obtain w1 s1 where p1: "processBar cfg lib wall (w, s) d = Inr (w1, s1)" "ledger_consistent s1"
      by blast
    from solvent_processBar[OF so c, of cfg lib wall w]
    obtain w2 s2 where p2: "processBar cfg lib wall (w, s) d = Inr (w2, s2)" "solvent s2"
      by blast
    show "\<exists>st'. processBar cfg lib wall st d = Inr st' \<and> ?I st'"
      using p1 p2 st by auto
  qed
  have prefixes: "\<forall>k \<le> length historicalData.
            \<exists>w s b. runLoop cfg lib wall (take k historicalData) ([], s0) = Inr (w, s)
                    \<and> balance s = Fin b \<and> 0 \<le> b"
  proof (intro allI impI)
    fix k
    have "set (take k historicalData) \<subseteq> set historicalData" by (rule set_take_subset)
    from loop[OF this] obtain w s
      where ws: "runLoop cfg lib wall (take k historicalData) ([], s0) = Inr (w, s)" "solvent s"
      by auto
    from ws(2) obtain b where "balance s = Fin b" "0 \<le> b" by (auto simp: solvent_def)
    with ws(1)
    show "\<exists>w s b. runLoop cfg lib wall (take k historicalData) ([], s0) = Inr (w, s)
                    \<and> balance s = Fin b \<and> 0 \<le> b"
      by blast
  qed
  from loop[of historicalData] obtain w s1
    where run: "runLoop cfg lib wall historicalData ([], s0) = Inr (w, s1)"
      and lc1: "ledger_consistent s1" and so1: "solvent s1"
    by auto
  from assms(5,6) obtain cl where cl: "close (last historicalData) = Fin cl" "0 < cl"
    using last_in_set by blast
  let ?s2 = "closeAllPositions wall (close (last historicalData)) s1"
  have lc2: "ledger_consistent ?s2" using lc1 by (rule ledger_consistent_closeAllPositions)
  have so2: "solvent ?s2" using solvent_closeAllPositions[OF so1, of cl wall] cl by simp
  from calculateResults_consistent[OF lc2] obtain r where r: "calculateResults ?s2 = Inr r"
    by blast
  have rb: "runBacktest cfg lib wall historicalData s0 = Inr (?s2, r)"
    using assms(5) run r by (simp add: runBacktest_def Let_def)
  from so2 obtain b where b: "balance ?s2 = Fin b" "0 \<le> b" by (auto simp: solvent_def)
  have final: "\<exists>s r b. runBacktest cfg lib wall historicalData s0 = Inr (s, r)
                    \<and> balance s = Fin b \<and> 0 \<le> b \<and> finalBalance r = Fin b"
    using rb b calculateResults_finalBalance[OF r] by auto
  have buy: "dlt (balance bt) (dplus (dmul sz pr) (dmul (dmul sz pr) (Fin 0.0025)))
            \<longrightarrow> executeBuy sz pr ts bt = bt"
    by (simp add: executeBuy_unaffordable)
  have sell: "i < length (positions bt) \<and> status (positions bt ! i) = OPEN
            \<and> psize (positions bt ! i) = Fin q \<and> 0 \<le> q \<and> 0 \<le> c
            \<longrightarrow> balance (executeSell i (Fin c) ts bt)
                  = dplus (balance bt) (Fin (q * c - q * c * 0.0025))
                \<and> 0 \<le> q * c - q * c * 0.0025"
    using executeSell_balance[of i bt q c ts] by blast
  show ?thesis by (rule conjI[OF prefixes conjI[OF final conjI[OF buy sell]]])
qed

section \<open>A run of two bars\<close>

lemma example_first_bar:
  "processBar exampleConfig exampleLib (\<lambda>n. 7) ([], Backtester_new exampleConfig 10000) (bar 0 3)
     = Inr ([bar 0 3], Backtester_new exampleConfig 10000)"
  by (simp add: processBar_def Backtester_new_def MeanReversionStrategy_new_def exampleConfig_def)

lemma example_positionSize:
  "calculatePositionSize exampleConfig (MeanReversionStrategy_new exampleConfig) exampleBuySignal
     (Fin 10000) (Fin 1) = Fin 500"
  by (simp add: calculatePositionSize_def MeanReversionStrategy_new_def exampleConfig_def
      exampleBuySignal_def dec_defs Let_def)

lemma example_validateTrade:
  "validateTrade (RiskManager_new exampleConfig) exampleBuySignal (Fin 500) (Fin 10000) []
     = (\<lparr> allowed = True, validation_reason = None, adjustedSize = None \<rparr>,
        (RiskManager_new exampleConfig)\<lparr> rm_peakBalance := Fin 10000 \<rparr>)"
  by (simp add: risk_defs exampleConfig_def exampleBuySignal_def dec_defs Let_def)

lemma example_executeBuy:
  "executeBuy (Fin 500) (Fin 1) 1
     ((Backtester_new exampleConfig 10000)
        \<lparr> tick := Suc 0,
          riskManager := (RiskManager_new exampleConfig)\<lparr> rm_peakBalance := Fin 10000 \<rparr> \<rparr>)
     = exampleAfterBuy"
  apply (simp add: executeBuy_def Let_def)
  apply (simp add: Backtester_new_def dec_defs)
  apply (simp add: exampleAfterBuy_def exampleBoughtPosition_def exampleBuyTrade_def
      calculateStopLoss_def calculateTakeProfit_def dec_defs Backtester_new_def)
  done

lemma example_processSignal:
  "processSignal exampleConfig exampleBuySignal (bar 1 1)
     ((Backtester_new exampleConfig 10000)\<lparr> tick := Suc 0 \<rparr>) = exampleAfterBuy"
proof -
  have f: "strategy (Backtester_new exampleConfig 10000) = MeanReversionStrategy_new exampleConfig"
    "riskManager (Backtester_new exampleConfig 10000) = RiskManager_new exampleConfig"
    "balance (Backtester_new exampleConfig 10000) = Fin 10000"
    "positions (Backtester_new exampleConfig 10000) = []"
    by (simp_all add: Backtester_new_def)
  have p: "price exampleBuySignal = Fin 1" "signal_type exampleBuySignal = BUY"
    by (simp_all add: exampleBuySignal_def)
  show ?thesis
    unfolding processSignal_def
    by (simp add: f p example_positionSize example_validateTrade example_executeBuy
        openPositionsOf_def bar_def dec_defs Let_def)
qed

lemma example_updateBalanceTracking:
  "updateBalanceTracking exampleAfterBuy = exampleAfterBuy\<lparr> bt_maxDrawdown := Fin (1 / 8000) \<rparr>"
  by (simp add: updateBalanceTracking_def exampleAfterBuy_def Backtester_new_def
      exampleBoughtPosition_def dec_defs Let_def)

lemma example_second_bar:
  "processBar exampleConfig exampleLib (\<lambda>n. 7) ([bar 0 3], Backtester_new exampleConfig 10000) (bar 1 1)
     = Inr ([bar 0 3, bar 1 1], exampleAfterBuy\<lparr> bt_maxDrawdown := Fin (1 / 8000) \<rparr>)"
proof -
  let ?s0 = "Backtester_new exampleConfig 10000"
  have f: "strategy ?s0 = MeanReversionStrategy_new exampleConfig" "positions ?s0 = []" "tick ?s0 = 0"
    by (simp_all add: Backtester_new_def)
  have m: "maPeriod (MeanReversionStrategy_new exampleConfig) = 2"
    by (simp add: MeanReversionStrategy_new_def exampleConfig_def)
  have u: "updatePositionValues (close (bar 1 1)) ?s0 = ?s0"
    by (simp add: updatePositionValues_def f)
  have c: "checkPositionExits (\<lambda>n. 7) (bar 1 1) ?s0 = ?s0"
    by (simp add: no_positions_exits f)
  have h: "signal_type exampleBuySignal \<noteq> HOLD" by (simp add: exampleBuySignal_def)
  show ?thesis
    unfolding processBar_def
    by (simp add: f m u c h analyze_example example_processSignal example_updateBalanceTracking
        Let_def)
qed

lemma example_closeAllPositions:
  "closeAllPositions (\<lambda>n. 7) (Fin 1) (exampleAfterBuy\<lparr> bt_maxDrawdown := Fin (1 / 8000) \<rparr>)
     = exampleAfterRun"
  by (simp add: closeAllPositions_def executeSell_def openIndices_def exampleAfterRun_def
      exampleAfterBuy_def Backtester_new_def exampleBoughtPosition_def exampleSellTrade_def
      exampleBuyTrade_def dec_defs Let_def)

lemma example_run:
  "\<exists>r. runBacktest exampleConfig exampleLib (\<lambda>n. 7) [bar 0 3, bar 1 1]
          (Backtester_new exampleConfig 10000) = Inr (exampleAfterRun, r)"
proof -
  have l: "runLoop exampleConfig exampleLib (\<lambda>n. 7) [bar 0 3, bar 1 1]
             ([], Backtester_new exampleConfig 10000)
           = Inr ([bar 0 3, bar 1 1], exampleAfterBuy\<lparr> bt_maxDrawdown := Fin (1 / 8000) \<rparr>)"
    by (simp add: example_first_bar example_second_bar)
  have c: "close (bar 1 1) = Fin 1" by (simp add: bar_def)
  have "ledger_consistent exampleAfterRun"
    by (simp add: ledger_consistent_def exampleAfterRun_def exampleAfterBuy_def
        exampleBoughtPosition_def exampleBuyTrade_def exampleSellTrade_def sellTrades_def
        buyTrades_def)
  from calculateResults_consistent[OF this] obtain r where "calculateResults exampleAfterRun = Inr r"
    by blast
  then show ?thesis
    unfolding runBacktest_def
    by (simp add: l c example_closeAllPositions Let_def del: runLoop.simps)
qed

theorem runBacktest_closes_every_position_witness:
  "\<exists>r. runBacktest exampleConfig exampleLib (\<lambda>n. 7) [bar 0 3, bar 1 1]
          (Backtester_new exampleConfig 10000) = Inr (exampleAfterRun, r)
       \<and> list_all (\<lambda>p. status p = CLOSED) (positions exampleAfterRun)
       \<and> length (positions exampleAfterRun) = 1
       \<and> result_trades r = [exampleBuyTrade, exampleSellTrade]
       \<and> length (sellTrades (result_trades r)) = 1
       \<and> length (buyTrades (result_trades r)) = 1
       \<and> totalTrades r = 1"
proof -
  from example_run obtain r0
    where r0: "runBacktest exampleConfig exampleLib (\<lambda>n. 7) [bar 0 3, bar 1 1]
                 (Backtester_new exampleConfig 10000) = Inr (exampleAfterRun, r0)"
    by blast
  have h: "[bar 0 3, bar 1 1] \<noteq> []" "positions (Backtester_new exampleConfig 10000) = []"
    "trades (Backtester_new exampleConfig 10000) = []"
    by (simp_all add: Backtester_new_def)
  from runBacktest_closes_every_position[OF h, of exampleConfig exampleLib "\<lambda>n. 7"] r0
  have "(\<forall>p \<in> set (positions exampleAfterRun). status p = CLOSED)
      \<and> result_trades r0 = trades exampleAfterRun
      \<and> length (sellTrades (result_trades r0)) = length (positions exampleAfterRun)
      \<and> length (buyTrades (result_trades r0)) = length (positions exampleAfterRun)
      \<and> totalTrades r0 = length (positions exampleAfterRun)"
    by auto
  moreover have "length (positions exampleAfterRun) = 1"
    "trades exampleAfterRun = [exampleBuyTrade, exampleSellTrade]"
    by (simp_all add: exampleAfterRun_def)
  ultimately show ?thesis using r0 by (auto simp: list_all_iff)
qed

theorem backtest_balance_not_negative_witness:
  "(\<exists>r. runBacktest exampleConfig exampleLib (\<lambda>n. 7) [bar 0 3, bar 1 1]
           (Backtester_new exampleConfig 10000) = Inr (exampleAfterRun, r)
         \<and> finalBalance r = Fin (19995 / 2))
   \<and> balance exampleAfterRun = Fin (19995 / 2)
   \<and> dlt (balance exampleBacktester)
          (dplus (dmul (Fin 200) (Fin 100)) (dmul (dmul (Fin 200) (Fin 100)) (Fin 0.0025)))
   \<and> executeBuy (Fin 200) (Fin 100) 5 exampleBacktester = exampleBacktester
   \<and> balance (executeSell 0 (Fin 110) 5 exampleBacktester) = Fin (10000 + 21945 / 100)"
proof -
  from example_run obtain r0
    where r0: "runBacktest exampleConfig exampleLib (\<lambda>n. 7) [bar 0 3, bar 1 1]
                 (Backtester_new exampleConfig 10000) = Inr (exampleAfterRun, r0)"
    by blast
  have h: "balance (Backtester_new exampleConfig 10000) = Fin 10000" "(0::real) \<le> 10000"
    "positions (Backtester_new exampleConfig 10000) = []"
    "trades (Backtester_new exampleConfig 10000) = []"
    "[bar 0 3, bar 1 1] \<noteq> []"
    "\<forall>d \<in> set [bar 0 3, bar 1 1]. \<exists>c. close d = Fin c \<and> 0 < c"
    by (simp_all add: Backtester_new_def bar_def)
  note t = backtest_balance_not_negative[OF h, where cfg = exampleConfig and lib = exampleLib
      and wall = "\<lambda>n. 7" and bt = exampleBacktester and sz = "Fin 200" and pr = "Fin 100"
      and ts = 5 and i = 0 and q = 2 and c = 110]
  from t r0 have fin: "finalBalance r0 = balance exampleAfterRun" by auto
  have b: "balance exampleAfterRun = Fin (19995 / 2)" by (simp add: exampleAfterRun_def)
  have e: "balance exampleBacktester = Fin 10000" "length (positions exampleBacktester) = 1"
    "status (positions exampleBacktester ! 0) = OPEN"
    "psize (positions exampleBacktester ! 0) = Fin 2"
    by (simp_all add: exampleBacktester_def Backtester_new_def examplePosition_def)
  have unaffordable: "dlt (balance exampleBacktester)
          (dplus (dmul (Fin 200) (Fin 100)) (dmul (dmul (Fin 200) (Fin 100)) (Fin 0.0025)))"
    by (simp add: e)
  from t unaffordable have buy: "executeBuy (Fin 200) (Fin 100) 5 exampleBacktester = exampleBacktester"
    by blast
  from t e have "balance (executeSell 0 (Fin 110) 5 exampleBacktester)
                   = dplus (balance exampleBacktester) (Fin (2 * 110 - 2 * 110 * 0.0025))"
    by simp
  then have sell: "balance (executeSell 0 (Fin 110) 5 exampleBacktester) = Fin (10000 + 21945 / 100)"
    by (simp add: e)
  show ?thesis using r0 fin b unaffordable buy sell by auto
qed

end
